theory Spec2Isabelle
  imports Complex_Main "HOL-Library.Sublist" "HOL-Library.Char_ord" "HOL-Library.List_Lexorder"
begin

section \<open>Python values, exceptions and the library operations the scorers use\<close>

text \<open>
  The scorers of \<^verbatim>\<open>core/lead_scorer.py\<close> and \<^verbatim>\<open>core/recommender.py\<close> work on
  dictionaries whose values are dynamically typed.  A value read from an interaction
  dictionary is a \<open>pyval\<close>; an operation that Python rejects for the value's type
  returns the exception as \<open>Inl\<close>.  A Python \<^verbatim>\<open>str\<close> is the list of the bytes of its
  UTF-8 encoding, so that an ASCII literal of the source is the same literal here, and
  the substring test \<^verbatim>\<open>k in s\<close> is the contiguous-sublist test.  Python floats are
  idealised as real numbers.
\<close>

datatype pyval =
    PNone
  | PBool bool
  | PInt int
  | PFloat real
  | PStr string
  | PList "pyval list"
  | PDict "(pyval \<times> pyval) list"

datatype pyexn = AttributeError string | TypeError string | ValueError string

fun str_exn :: "pyexn \<Rightarrow> string" where
  "str_exn (AttributeError m) = m"
| "str_exn (TypeError m) = m"
| "str_exn (ValueError m) = m"

fun type_name :: "pyval \<Rightarrow> string" where
  "type_name PNone = ''NoneType''"
| "type_name (PBool _) = ''bool''"
| "type_name (PInt _) = ''int''"
| "type_name (PFloat _) = ''float''"
| "type_name (PStr _) = ''str''"
| "type_name (PList _) = ''list''"
| "type_name (PDict _) = ''dict''"

definition quoted :: "string \<Rightarrow> string" where
  "quoted s = [CHR 0x27] @ s @ [CHR 0x27]"

definition bind_exn :: "pyexn + 'a \<Rightarrow> ('a \<Rightarrow> pyexn + 'b) \<Rightarrow> pyexn + 'b" where
  "bind_exn m f = (case m of Inl e \<Rightarrow> Inl e | Inr x \<Rightarrow> f x)"

text \<open>\<^verbatim>\<open>bool(v)\<close>, as the conditions \<^verbatim>\<open>... and content\<close> use it.\<close>

fun truthy :: "pyval \<Rightarrow> bool" where
  "truthy PNone = False"
| "truthy (PBool b) = b"
| "truthy (PInt i) = (i \<noteq> 0)"
| "truthy (PFloat x) = (x \<noteq> 0)"
| "truthy (PStr s) = (s \<noteq> [])"
| "truthy (PList xs) = (xs \<noteq> [])"
| "truthy (PDict kvs) = (kvs \<noteq> [])"

text \<open>\<^verbatim>\<open>k in s\<close> on two strings.\<close>

fun str_in :: "string \<Rightarrow> string \<Rightarrow> bool" where
  "str_in k [] = (k = [])"
| "str_in k (c # cs) = (prefix k (c # cs) \<or> str_in k cs)"

text \<open>
  \<^verbatim>\<open>v.lower()\<close>: only a \<^verbatim>\<open>str\<close> has the method.  The Unicode case mapping itself
  belongs to the Python library; it is the parameter \<open>lower\<close> of every definition
  below.
\<close>

fun str_lower :: "(string \<Rightarrow> string) \<Rightarrow> pyval \<Rightarrow> pyexn + string" where
  "str_lower lower (PStr s) = Inr (lower s)"
| "str_lower lower v =
     Inl (AttributeError (quoted (type_name v) @ '' object has no attribute '' @ quoted ''lower''))"

text \<open>\<^verbatim>\<open>v > n\<close> for an integer literal \<open>n\<close>.\<close>

fun py_gt_int :: "pyval \<Rightarrow> int \<Rightarrow> pyexn + bool" where
  "py_gt_int (PInt i) n = Inr (n < i)"
| "py_gt_int (PBool b) n = Inr (n < (if b then 1 else 0))"
| "py_gt_int (PFloat x) n = Inr (real_of_int n < x)"
| "py_gt_int v n =
     Inl (TypeError (quoted ''>'' @ '' not supported between instances of ''
          @ quoted (type_name v) @ '' and '' @ quoted ''int''))"

text \<open>\<^verbatim>\<open>v == 'literal'\<close>.\<close>

definition py_eq_str :: "pyval \<Rightarrow> string \<Rightarrow> bool" where
  "py_eq_str v s = (v = PStr s)"

text \<open>\<^verbatim>\<open>d.get(key, default)\<close>.\<close>

definition dict_get :: "(string \<rightharpoonup> pyval) \<Rightarrow> string \<Rightarrow> pyval \<Rightarrow> pyval" where
  "dict_get d k dflt = (case d k of None \<Rightarrow> dflt | Some v \<Rightarrow> v)"

text \<open>The decimal rendering of an integer inside an f-string.\<close>

fun digits_of_nat :: "nat \<Rightarrow> string" where
  "digits_of_nat n =
     (if n < 10 then [''0123456789'' ! n]
      else digits_of_nat (n div 10) @ [''0123456789'' ! (n mod 10)])"

definition str_int :: "int \<Rightarrow> string" where
  "str_int i = (if i < 0 then ''-'' @ digits_of_nat (nat (- i)) else digits_of_nat (nat i))"

text \<open>
  \<^verbatim>\<open>round(x, 2)\<close> on a float: the nearest multiple of \<open>1/100\<close>, a tie going to the
  even one.
\<close>

definition round_half_even :: "real \<Rightarrow> int" where
  "round_half_even y =
     (let f = \<lfloor>y\<rfloor>; d = y - of_int f
      in if d < 1/2 then f else if 1/2 < d then f + 1 else if even f then f else f + 1)"

definition round2 :: "real \<Rightarrow> real" where
  "round2 x = of_int (round_half_even (x * 100)) / 100"

section \<open>The lead scorer (\<^verbatim>\<open>core/lead_scorer.py\<close>)\<close>

subsection \<open>\<^verbatim>\<open>_determine_lead_quality\<close>\<close>

definition determine_lead_quality :: "real \<Rightarrow> string" where
  "determine_lead_quality score =
     (if score \<ge> 80 then ''hot''
      else if score \<ge> 60 then ''warm''
      else if score \<ge> 40 then ''medium''
      else if score \<ge> 20 then ''cold''
      else ''very_cold'')"

subsection \<open>\<^verbatim>\<open>_analyze_content_nlp\<close>\<close>

definition enterprise_keywords :: "string list" where
  "enterprise_keywords =
  [''b'' @ [CHR 0xC3, CHR 0xA1] @ ''o gi'' @ [CHR 0xC3, CHR 0xA1] @ '' doanh nghi'' @ [CHR 0xE1, CHR 0xBB, CHR 0x87] @ ''p'',
   ''h'' @ [CHR 0xE1, CHR 0xBB, CHR 0xA3] @ ''p t'' @ [CHR 0xC3, CHR 0xA1] @ ''c'',
   ''s'' @ [CHR 0xE1, CHR 0xBB, CHR 0x91] @ '' l'' @ [CHR 0xC6, CHR 0xB0, CHR 0xE1, CHR 0xBB, CHR 0xA3] @ ''ng l'' @ [CHR 0xE1, CHR 0xBB, CHR 0x9B] @ ''n'',
   ''enterprise'',
   ''corporate'',
   ''bulk training'',
   ''team training'',
   ''partnership'',
   ''collaboration'',
   ''enterprise solution'']"

definition positive_keywords :: "string list" where
  "positive_keywords =
  [''mua'',
   [CHR 0xC4, CHR 0x91, CHR 0xC4, CHR 0x83] @ ''ng k'' @ [CHR 0xC3, CHR 0xBD],
   ''quan t'' @ [CHR 0xC3, CHR 0xA2] @ ''m'',
   ''mu'' @ [CHR 0xE1, CHR 0xBB, CHR 0x91] @ ''n h'' @ [CHR 0xE1, CHR 0xBB, CHR 0x8D] @ ''c'',
   ''tham gia'',
   ''chi ph'' @ [CHR 0xC3, CHR 0xAD],
   ''gi'' @ [CHR 0xC3, CHR 0xA1] @ '' c'' @ [CHR 0xE1, CHR 0xBA, CHR 0xA3],
   ''pricing'',
   ''cost'',
   ''interested'',
   ''enroll'',
   ''register'',
   ''sign up'']"

definition negative_keywords :: "string list" where
  "negative_keywords =
  [''kh'' @ [CHR 0xC3, CHR 0xB4] @ ''ng h'' @ [CHR 0xC3, CHR 0xA0] @ ''i l'' @ [CHR 0xC3, CHR 0xB2] @ ''ng'',
   ''th'' @ [CHR 0xE1, CHR 0xBA, CHR 0xA5] @ ''t v'' @ [CHR 0xE1, CHR 0xBB, CHR 0x8D] @ ''ng'',
   ''t'' @ [CHR 0xE1, CHR 0xBB, CHR 0x87],
   ''k'' @ [CHR 0xC3, CHR 0xA9] @ ''m'',
   ''kh'' @ [CHR 0xC3, CHR 0xB4] @ ''ng t'' @ [CHR 0xE1, CHR 0xBB, CHR 0x91] @ ''t'',
   ''b'' @ [CHR 0xE1, CHR 0xBB, CHR 0xB1] @ ''c b'' @ [CHR 0xE1, CHR 0xBB, CHR 0x99] @ ''i'',
   ''t'' @ [CHR 0xE1, CHR 0xBB, CHR 0xA9] @ ''c gi'' @ [CHR 0xE1, CHR 0xBA, CHR 0xAD] @ ''n'',
   ''kh'' @ [CHR 0xC3, CHR 0xB3] @ '' ch'' @ [CHR 0xE1, CHR 0xBB, CHR 0x8B] @ ''u'',
   ''ph'' @ [CHR 0xE1, CHR 0xBA, CHR 0xA3] @ ''n '' @ [CHR 0xC4, CHR 0x91, CHR 0xE1, CHR 0xBB, CHR 0x91] @ ''i'',
   ''disappointed'',
   ''frustrated'',
   ''angry'',
   ''upset'',
   ''terrible'',
   ''awful'',
   ''horrible'',
   ''worst'',
   ''hate'']"

text \<open>
  The three regular expressions, as the source texts of the patterns.  Matching is
  \<^verbatim>\<open>re.search\<close> of the Python library: the parameter \<open>re_search\<close>, which takes the
  pattern and the subject and says whether the pattern matches somewhere.
\<close>

definition negative_patterns :: "string list" where
  "negative_patterns =
  [''kh'' @ [CHR 0xC3, CHR 0xB4] @ ''ng'' @ [CHR 0x5C] @ ''s+'' @ [CHR 0x5C] @ ''w*'' @ [CHR 0x5C] @ ''s*(t'' @ [CHR 0xE1, CHR 0xBB, CHR 0x91] @ ''t|hay|ok)'',
   ''qu'' @ [CHR 0xC3, CHR 0xA1, CHR 0x5C] @ ''s+('' @ [CHR 0xC4, CHR 0x91, CHR 0xE1, CHR 0xBA, CHR 0xAF] @ ''t|cao)'',
   ''(r'' @ [CHR 0xE1, CHR 0xBA, CHR 0xA5] @ ''t|qu'' @ [CHR 0xC3, CHR 0xA1] @ '')'' @ [CHR 0x5C] @ ''s+(t'' @ [CHR 0xE1, CHR 0xBB, CHR 0x87] @ ''|k'' @ [CHR 0xC3, CHR 0xA9] @ ''m)'']"

text \<open>The loop over the enterprise keywords: \<^verbatim>\<open>score += 30; break\<close> at the first hit.\<close>

fun enterprise_loop :: "string list \<Rightarrow> string \<Rightarrow> int \<Rightarrow> int" where
  "enterprise_loop [] content_lower score = score"
| "enterprise_loop (keyword # rest) content_lower score =
     (if str_in keyword content_lower then score + 30
      else enterprise_loop rest content_lower score)"

text \<open>The loop over the positive keywords: \<^verbatim>\<open>score += 5\<close> at every hit.\<close>

fun positive_loop :: "string list \<Rightarrow> string \<Rightarrow> int \<Rightarrow> int" where
  "positive_loop [] content_lower score = score"
| "positive_loop (keyword # rest) content_lower score =
     positive_loop rest content_lower (if str_in keyword content_lower then score + 5 else score)"

text \<open>The loop over the negative keywords: the flag is set and the loop left at the first hit.\<close>

fun negative_loop :: "string list \<Rightarrow> string \<Rightarrow> bool \<Rightarrow> bool" where
  "negative_loop [] content_lower negative_sentiment = negative_sentiment"
| "negative_loop (keyword # rest) content_lower negative_sentiment =
     (if str_in keyword content_lower then True
      else negative_loop rest content_lower negative_sentiment)"

fun pattern_loop :: "(string \<Rightarrow> string \<Rightarrow> bool) \<Rightarrow> string list \<Rightarrow> string \<Rightarrow> bool \<Rightarrow> bool" where
  "pattern_loop re_search [] content_lower negative_sentiment = negative_sentiment"
| "pattern_loop re_search (pattern # rest) content_lower negative_sentiment =
     (if re_search pattern content_lower then True
      else pattern_loop re_search rest content_lower negative_sentiment)"

text \<open>
  The function catches every exception of its body and then returns \<^verbatim>\<open>(0, False)\<close>;
  the only operation of the body that can raise is \<^verbatim>\<open>content.lower()\<close>, on a value
  that is not a string.
\<close>

definition analyze_content_nlp ::
  "(string \<Rightarrow> string) \<Rightarrow> (string \<Rightarrow> string \<Rightarrow> bool) \<Rightarrow> pyval \<Rightarrow> int \<times> bool" where
  "analyze_content_nlp lower re_search content =
     (case str_lower lower content of
        Inl e \<Rightarrow> (0, False)
      | Inr content_lower \<Rightarrow>
          (let score = enterprise_loop enterprise_keywords content_lower 0;
               score = positive_loop positive_keywords content_lower score;
               negative_sentiment = negative_loop negative_keywords content_lower False;
               negative_sentiment =
                 (if \<not> negative_sentiment
                  then pattern_loop re_search negative_patterns content_lower negative_sentiment
                  else negative_sentiment);
               score = max 0 score
           in (score, negative_sentiment)))"

subsection \<open>\<^verbatim>\<open>score_lead\<close>\<close>

type_synonym interaction = "string \<rightharpoonup> pyval"

text \<open>Rule 1: \<^verbatim>\<open>'pricing' in page_url.lower() or 'gia' in page_url.lower()\<close>.\<close>

definition rule_pricing :: "(string \<Rightarrow> string) \<Rightarrow> pyval \<Rightarrow> pyexn + bool" where
  "rule_pricing lower page_url =
     bind_exn (str_lower lower page_url) (\<lambda>u.
       if str_in ''pricing'' u then Inr True
       else bind_exn (str_lower lower page_url) (\<lambda>u'. Inr (str_in ''gia'' u')))"

text \<open>
  Rule 2: \<^verbatim>\<open>('python' in page_url.lower() or 'python' in content.lower()) and duration > 180\<close>,
  with the short-circuit evaluation of \<^verbatim>\<open>or\<close> and \<^verbatim>\<open>and\<close>.
\<close>

definition rule_python :: "(string \<Rightarrow> string) \<Rightarrow> pyval \<Rightarrow> pyval \<Rightarrow> pyval \<Rightarrow> pyexn + bool" where
  "rule_python lower page_url content duration =
     bind_exn (str_lower lower page_url) (\<lambda>u.
       bind_exn (if str_in ''python'' u then Inr True
                 else bind_exn (str_lower lower content) (\<lambda>c. Inr (str_in ''python'' c)))
         (\<lambda>mentions. if mentions then py_gt_int duration 180 else Inr False))"

text \<open>Rule 3: \<^verbatim>\<open>interaction_type == 'form_submission' or 'contact' in interaction_type.lower()\<close>.\<close>

definition rule_form :: "(string \<Rightarrow> string) \<Rightarrow> pyval \<Rightarrow> pyexn + bool" where
  "rule_form lower interaction_type =
     (if py_eq_str interaction_type ''form_submission'' then Inr True
      else bind_exn (str_lower lower interaction_type) (\<lambda>t. Inr (str_in ''contact'' t)))"

text \<open>Rule 4 applies when \<^verbatim>\<open>interaction_type in ['chat', 'message'] and content\<close>.\<close>

definition rule_message :: "pyval \<Rightarrow> pyval \<Rightarrow> bool" where
  "rule_message interaction_type content =
     ((py_eq_str interaction_type ''chat'' \<or> py_eq_str interaction_type ''message'')
      \<and> truthy content)"

definition negative_line :: string where
  "negative_line = ''Negative sentiment detected - needs human intervention''"

definition nlp_line :: "int \<Rightarrow> string" where
  "nlp_line nlp_score = ''NLP analysis (+'' @ str_int nlp_score @ '')''"

text \<open>
  One iteration of the loop of \<^verbatim>\<open>score_lead\<close>, on the three variables the loop
  updates: \<^verbatim>\<open>total_score\<close>, \<^verbatim>\<open>needs_human_intervention\<close> and
  \<^verbatim>\<open>interaction_details\<close>.
\<close>

definition score_interaction ::
  "(string \<Rightarrow> string) \<Rightarrow> (string \<Rightarrow> string \<Rightarrow> bool) \<Rightarrow> interaction
   \<Rightarrow> int \<times> bool \<times> string list \<Rightarrow> pyexn + (int \<times> bool \<times> string list)" where
  "score_interaction lower re_search interaction st =
     (case st of (total_score, needs_human_intervention, interaction_details) \<Rightarrow>
      let interaction_score = 0;
          interaction_type = dict_get interaction ''type'' (PStr '''');
          content = dict_get interaction ''content'' (PStr '''');
          duration = dict_get interaction ''duration'' (PInt 0);
          page_url = dict_get interaction ''page_url'' (PStr '''')
      in
      bind_exn (rule_pricing lower page_url) (\<lambda>r1.
      let interaction_score = (if r1 then interaction_score + 10 else interaction_score);
          interaction_details =
            (if r1 then interaction_details @ [''Visited pricing page (+10)'']
             else interaction_details)
      in
      bind_exn (rule_python lower page_url content duration) (\<lambda>r2.
      let interaction_score = (if r2 then interaction_score + 15 else interaction_score);
          interaction_details =
            (if r2 then interaction_details @ [''Viewed Python course >3min (+15)'']
             else interaction_details)
      in
      bind_exn (rule_form lower interaction_type) (\<lambda>r3.
      let interaction_score = (if r3 then interaction_score + 20 else interaction_score);
          interaction_details =
            (if r3 then interaction_details @ [''Submitted contact form (+20)'']
             else interaction_details)
      in
      if rule_message interaction_type content
      then
        (let nlp_score = fst (analyze_content_nlp lower re_search content);
             sentiment_flag = snd (analyze_content_nlp lower re_search content);
             interaction_score = interaction_score + nlp_score;
             needs_human_intervention =
               (if sentiment_flag then True else needs_human_intervention);
             interaction_details =
               (if sentiment_flag then interaction_details @ [negative_line]
                else interaction_details);
             interaction_details =
               (if nlp_score > 0 then interaction_details @ [nlp_line nlp_score]
                else interaction_details)
         in Inr (total_score + interaction_score, needs_human_intervention, interaction_details))
      else Inr (total_score + interaction_score, needs_human_intervention, interaction_details)))))"

fun score_loop ::
  "(string \<Rightarrow> string) \<Rightarrow> (string \<Rightarrow> string \<Rightarrow> bool) \<Rightarrow> interaction list
   \<Rightarrow> int \<times> bool \<times> string list \<Rightarrow> pyexn + (int \<times> bool \<times> string list)" where
  "score_loop lower re_search [] st = Inr st"
| "score_loop lower re_search (interaction # rest) st =
     bind_exn (score_interaction lower re_search interaction st) (score_loop lower re_search rest)"

record score_result =
  lead_score :: int
  quality :: string
  needs_human_intervention :: bool
  interaction_details :: "string list"
  total_interactions :: "nat option"
  scored_at :: "string option"
  error :: "string option"

text \<open>
  \<open>utcnow\<close> is the text of \<^verbatim>\<open>datetime.utcnow().isoformat()\<close> at the time of the call.
  The result of the \<^verbatim>\<open>except\<close> branch has neither \<^verbatim>\<open>total_interactions\<close> nor
  \<^verbatim>\<open>scored_at\<close>.
\<close>

definition score_lead ::
  "(string \<Rightarrow> string) \<Rightarrow> (string \<Rightarrow> string \<Rightarrow> bool) \<Rightarrow> string \<Rightarrow> interaction list
   \<Rightarrow> score_result" where
  "score_lead lower re_search utcnow interaction_data =
     (case score_loop lower re_search interaction_data (0, False, []) of
        Inr (total_score, needs, details) \<Rightarrow>
          \<lparr>lead_score = total_score,
           quality = determine_lead_quality (of_int total_score),
           needs_human_intervention = needs,
           interaction_details = details,
           total_interactions = Some (length interaction_data),
           scored_at = Some utcnow,
           error = None\<rparr>
      | Inl e \<Rightarrow>
          \<lparr>lead_score = 0,
           quality = ''unqualified'',
           needs_human_intervention = True,
           interaction_details = [],
           total_interactions = None,
           scored_at = None,
           error = Some (str_exn e)\<rparr>)"

subsection \<open>The documented rules, read off an interaction\<close>

text \<open>
  The definitions of this subsection are not translations of code.  They say, for one
  interaction, what the documented rules of \<^verbatim>\<open>score_lead\<close> award: which of the four
  rules apply, the points and the trace line of each contribution, and whether the
  interaction is a message with negative sentiment.  They are total: a field that does
  not hold a string matches no keyword.  The theorems below compare the loop of the
  source with them.
\<close>

definition visits_pricing :: "(string \<Rightarrow> string) \<Rightarrow> interaction \<Rightarrow> bool" where
  "visits_pricing lower e =
     (case dict_get e ''page_url'' (PStr '''') of
        PStr u \<Rightarrow> str_in ''pricing'' (lower u) \<or> str_in ''gia'' (lower u)
      | _ \<Rightarrow> False)"

definition exceeds :: "pyval \<Rightarrow> int \<Rightarrow> bool" where
  "exceeds v n = (case py_gt_int v n of Inr b \<Rightarrow> b | Inl e \<Rightarrow> False)"

definition long_python_view :: "(string \<Rightarrow> string) \<Rightarrow> interaction \<Rightarrow> bool" where
  "long_python_view lower e =
     (case dict_get e ''page_url'' (PStr '''') of
        PStr u \<Rightarrow>
          (str_in ''python'' (lower u) \<or>
           (case dict_get e ''content'' (PStr '''') of
              PStr c \<Rightarrow> str_in ''python'' (lower c) | _ \<Rightarrow> False))
          \<and> exceeds (dict_get e ''duration'' (PInt 0)) 180
      | _ \<Rightarrow> False)"

definition submits_form :: "(string \<Rightarrow> string) \<Rightarrow> interaction \<Rightarrow> bool" where
  "submits_form lower e =
     (case dict_get e ''type'' (PStr '''') of
        PStr t \<Rightarrow> t = ''form_submission'' \<or> str_in ''contact'' (lower t)
      | _ \<Rightarrow> False)"

text \<open>A chat or message interaction that has content.\<close>

definition is_message :: "interaction \<Rightarrow> bool" where
  "is_message e =
     (dict_get e ''type'' (PStr '''') \<in> {PStr ''chat'', PStr ''message''}
      \<and> truthy (dict_get e ''content'' (PStr '''')))"

text \<open>
  The points of one message text: 30 once if some enterprise keyword occurs in it, and
  5 for every positive keyword that occurs in it.
\<close>

definition message_points :: "(string \<Rightarrow> string) \<Rightarrow> string \<Rightarrow> int" where
  "message_points lower c =
     (if \<exists>k \<in> set enterprise_keywords. str_in k (lower c) then 30 else 0)
     + 5 * int (length (filter (\<lambda>k. str_in k (lower c)) positive_keywords))"

definition nlp_contribution :: "(string \<Rightarrow> string) \<Rightarrow> interaction \<Rightarrow> int" where
  "nlp_contribution lower e =
     (if is_message e
      then (case dict_get e ''content'' (PStr '''') of
              PStr c \<Rightarrow> message_points lower c | _ \<Rightarrow> 0)
      else 0)"

text \<open>The contributions of one interaction, each with its points and its trace line.\<close>

definition contributions :: "(string \<Rightarrow> string) \<Rightarrow> interaction \<Rightarrow> (int \<times> string) list" where
  "contributions lower e =
     (if visits_pricing lower e then [(10, ''Visited pricing page (+10)'')] else []) @
     (if long_python_view lower e then [(15, ''Viewed Python course >3min (+15)'')] else []) @
     (if submits_form lower e then [(20, ''Submitted contact form (+20)'')] else []) @
     (if nlp_contribution lower e > 0
      then [(nlp_contribution lower e, nlp_line (nlp_contribution lower e))] else [])"

text \<open>A text matches a negative-sentiment keyword or pattern.\<close>

definition negative_match ::
  "(string \<Rightarrow> string) \<Rightarrow> (string \<Rightarrow> string \<Rightarrow> bool) \<Rightarrow> string \<Rightarrow> bool" where
  "negative_match lower re_search c =
     ((\<exists>k \<in> set negative_keywords. str_in k (lower c)) \<or>
      (\<exists>p \<in> set negative_patterns. re_search p (lower c)))"

definition negative_message ::
  "(string \<Rightarrow> string) \<Rightarrow> (string \<Rightarrow> string \<Rightarrow> bool) \<Rightarrow> interaction \<Rightarrow> bool" where
  "negative_message lower re_search e =
     (is_message e \<and>
      (case dict_get e ''content'' (PStr '''') of
         PStr c \<Rightarrow> negative_match lower re_search c | _ \<Rightarrow> False))"

text \<open>All the lines one interaction adds to the trace, the escalation notice included.\<close>

definition trace_lines ::
  "(string \<Rightarrow> string) \<Rightarrow> (string \<Rightarrow> string \<Rightarrow> bool) \<Rightarrow> interaction \<Rightarrow> string list" where
  "trace_lines lower re_search e =
     (if visits_pricing lower e then [''Visited pricing page (+10)''] else []) @
     (if long_python_view lower e then [''Viewed Python course >3min (+15)''] else []) @
     (if submits_form lower e then [''Submitted contact form (+20)''] else []) @
     (if negative_message lower re_search e then [negative_line] else []) @
     (if nlp_contribution lower e > 0 then [nlp_line (nlp_contribution lower e)] else [])"

text \<open>
  An interaction whose fields have the types of the data model: \<^verbatim>\<open>type\<close>,
  \<^verbatim>\<open>content\<close> and \<^verbatim>\<open>page_url\<close> are strings and \<^verbatim>\<open>duration\<close> is a number,
  each when present.
\<close>

fun is_str :: "pyval \<Rightarrow> bool" where
  "is_str (PStr s) = True"
| "is_str v = False"

fun is_number :: "pyval \<Rightarrow> bool" where
  "is_number (PInt i) = True"
| "is_number (PFloat x) = True"
| "is_number (PBool b) = True"
| "is_number v = False"

definition well_typed :: "interaction \<Rightarrow> bool" where
  "well_typed e =
     (is_str (dict_get e ''type'' (PStr '''')) \<and> is_str (dict_get e ''content'' (PStr ''''))
      \<and> is_str (dict_get e ''page_url'' (PStr '''')) \<and> is_number (dict_get e ''duration'' (PInt 0)))"

text \<open>
  On a string of ASCII characters \<^verbatim>\<open>str.lower\<close> maps \<open>A\<close> to \<open>Z\<close> to \<open>a\<close> to
  \<open>z\<close> and leaves every other character alone.  The examples below, all in ASCII, are
  evaluated with it.
\<close>

definition ascii_lower :: "string \<Rightarrow> string" where
  "ascii_lower s =
     map (\<lambda>c. case map_of (zip ''ABCDEFGHIJKLMNOPQRSTUVWXYZ'' ''abcdefghijklmnopqrstuvwxyz'') c of
                Some l \<Rightarrow> l | None \<Rightarrow> c) s"

subsection \<open>\<^verbatim>\<open>calculate_lead_score\<close>\<close>


record lead_score_weights =
  w_email_engagement :: real
  w_website_activity :: real
  w_demographic_fit :: real
  w_interaction_frequency :: real
  w_content_engagement :: real

definition LEAD_SCORE_WEIGHTS :: lead_score_weights where
  "LEAD_SCORE_WEIGHTS =
     \<lparr>w_email_engagement = 0.3, w_website_activity = 0.25, w_demographic_fit = 0.2,
      w_interaction_frequency = 0.15, w_content_engagement = 0.1\<rparr>"






section \<open>The candidate recommender (\<^verbatim>\<open>core/recommender.py\<close>)\<close>

text \<open>
  The dictionaries of the recommender are records here.  Several of them share keys
  (\<^verbatim>\<open>score\<close>, \<^verbatim>\<open>candidate_id\<close>), so every field carries a prefix for its
  dictionary: \<open>c_\<close> candidate, \<open>en_\<close> enrollment, \<open>t_\<close> task, \<open>cp_\<close> competency,
  \<open>in_\<close> interaction, \<open>f_\<close> features, \<open>ms_\<close> matched skill, \<open>sm_\<close> skill match,
  \<open>em_\<close> experience match, \<open>r_\<close> recommendation, \<open>pj_\<close> parsed job description,
  \<open>jd_\<close> job description.  A key that \<^verbatim>\<open>.get\<close> reads with a default is a field
  holding the default when the key is absent; a key read without one is an option.
\<close>

subsection \<open>Dates\<close>

text \<open>
  A \<^verbatim>\<open>datetime\<close> is naive or aware of its time zone; the integer is its position on
  the time line in microseconds.  Python refuses to compare or to subtract a naive and an
  aware one.  A \<^verbatim>\<open>created_at\<close> value is absent (or \<^verbatim>\<open>None\<close>), a text or a
  \<^verbatim>\<open>datetime\<close>.  \<^verbatim>\<open>datetime.fromisoformat\<close> is the parameter \<open>fromisoformat\<close>, and
  \<open>now\<close> is the value of \<^verbatim>\<open>datetime.now()\<close>, taken to be the same for the whole call.
\<close>

datatype pydatetime = Naive int | Aware int

datatype timestamp = NoTimestamp | IsoText string | DateTime pydatetime

fun truthy_timestamp :: "timestamp \<Rightarrow> bool" where
  "truthy_timestamp NoTimestamp = False"
| "truthy_timestamp (IsoText s) = (s \<noteq> [])"
| "truthy_timestamp (DateTime d) = True"

text \<open>\<^verbatim>\<open>s.replace(c, r)\<close> for a pattern of one character.\<close>

definition replace_char :: "char \<Rightarrow> string \<Rightarrow> string \<Rightarrow> string" where
  "replace_char c r s = concat (map (\<lambda>x. if x = c then r else [x]) s)"

text \<open>
  \<^verbatim>\<open>if isinstance(created_at, str): created_at = datetime.fromisoformat(created_at.replace('Z', '+00:00'))\<close>
\<close>

fun as_datetime :: "(string \<Rightarrow> pyexn + pydatetime) \<Rightarrow> timestamp \<Rightarrow> pyexn + pydatetime" where
  "as_datetime fromisoformat (IsoText s) = fromisoformat (replace_char CHR ''Z'' ''+00:00'' s)"
| "as_datetime fromisoformat (DateTime d) = Inr d"
| "as_datetime fromisoformat NoTimestamp = Inl (TypeError ''not a datetime'')"

fun dt_less :: "pydatetime \<Rightarrow> pydatetime \<Rightarrow> pyexn + bool" where
  "dt_less (Naive a) (Naive b) = Inr (a < b)"
| "dt_less (Aware a) (Aware b) = Inr (a < b)"
| "dt_less a b = Inl (TypeError ''can't compare offset-naive and offset-aware datetimes'')"

fun dt_ge :: "pydatetime \<Rightarrow> pydatetime \<Rightarrow> pyexn + bool" where
  "dt_ge (Naive a) (Naive b) = Inr (a \<ge> b)"
| "dt_ge (Aware a) (Aware b) = Inr (a \<ge> b)"
| "dt_ge a b = Inl (TypeError ''can't compare offset-naive and offset-aware datetimes'')"

text \<open>\<^verbatim>\<open>(a - b).days\<close>: the days of a \<^verbatim>\<open>timedelta\<close> are rounded down.\<close>

fun dt_sub_days :: "pydatetime \<Rightarrow> pydatetime \<Rightarrow> pyexn + int" where
  "dt_sub_days (Naive a) (Naive b) = Inr ((a - b) div 86400000000)"
| "dt_sub_days (Aware a) (Aware b) = Inr ((a - b) div 86400000000)"
| "dt_sub_days a b = Inl (TypeError ''can't subtract offset-naive and offset-aware datetimes'')"

subsection \<open>The candidate and its features\<close>

record enrollment =
  en_status :: "string option"
  en_created_at :: timestamp

record task =
  t_status :: "string option"
  t_score :: "real option"
  t_completed_at :: string

record competency =
  cp_competency_name :: string
  cp_score :: real

record cand_interaction =
  in_created_at :: timestamp
  in_interaction_type :: string

record candidate =
  c_id :: pyval
  c_full_name :: "string option"
  c_enrollments :: "enrollment list"
  c_tasks :: "task list"
  c_competencies :: "competency list"
  c_interactions :: "cand_interaction list"

record features =
  f_candidate_id :: pyval
  f_total_courses :: nat
  f_completed_courses :: nat
  f_course_completion_rate :: real
  f_avg_task_score :: real
  f_total_tasks_completed :: nat
  f_task_completion_rate :: real
  f_avg_competency_score :: real
  f_max_competency_score :: real
  f_competency_count :: nat
  f_competency_vector :: "string \<rightharpoonup> real"
  f_days_since_enrollment :: int
  f_learning_velocity :: real
  f_improvement_trend :: real
  f_consistency_score :: real
  f_total_interactions :: nat
  f_recent_activity :: real
  f_engagement_score :: real

text \<open>
  \<^verbatim>\<open>np.mean\<close>, \<^verbatim>\<open>np.std\<close> and the slope \<^verbatim>\<open>np.polyfit(x, scores, 1)[0]\<close> of the
  least-squares line through the points \<open>(0, y\<^sub>0), (1, y\<^sub>1), \<dots>\<close>, on real numbers.
\<close>

definition np_mean :: "real list \<Rightarrow> real" where
  "np_mean xs = sum_list xs / real (length xs)"

definition np_std :: "real list \<Rightarrow> real" where
  "np_std xs = sqrt (np_mean (map (\<lambda>x. (x - np_mean xs)\<^sup>2) xs))"

definition polyfit_slope :: "real list \<Rightarrow> real" where
  "polyfit_slope ys =
     (let n = real (length ys);
          xs = map real [0..<length ys];
          sx = sum_list xs;
          sy = sum_list ys;
          sxy = sum_list (map2 (*) xs ys);
          sxx = sum_list (map (\<lambda>x. x * x) xs)
      in (n * sxy - sx * sy) / (n * sxx - sx * sx))"

text \<open>\<^verbatim>\<open>_calculate_days_since_enrollment\<close>: the loop that finds the earliest date.\<close>

fun earliest_loop ::
  "(string \<Rightarrow> pyexn + pydatetime) \<Rightarrow> enrollment list \<Rightarrow> pydatetime option
   \<Rightarrow> pyexn + pydatetime option" where
  "earliest_loop fromisoformat [] earliest_date = Inr earliest_date"
| "earliest_loop fromisoformat (enrollment # rest) earliest_date =
     (if truthy_timestamp (en_created_at enrollment)
      then (case as_datetime fromisoformat (en_created_at enrollment) of
              Inl e \<Rightarrow> Inl e
            | Inr created_at \<Rightarrow>
                (case earliest_date of
                   None \<Rightarrow> earliest_loop fromisoformat rest (Some created_at)
                 | Some earliest \<Rightarrow>
                     (case dt_less created_at earliest of
                        Inl e \<Rightarrow> Inl e
                      | Inr b \<Rightarrow>
                          earliest_loop fromisoformat rest
                            (if b then Some created_at else earliest_date))))
      else earliest_loop fromisoformat rest earliest_date)"

definition calculate_days_since_enrollment ::
  "(string \<Rightarrow> pyexn + pydatetime) \<Rightarrow> int \<Rightarrow> candidate \<Rightarrow> pyexn + int" where
  "calculate_days_since_enrollment fromisoformat now candidate =
     (let enrollments = c_enrollments candidate
      in if enrollments = [] then Inr 0
         else bind_exn (earliest_loop fromisoformat enrollments None) (\<lambda>earliest_date.
                case earliest_date of
                  None \<Rightarrow> Inr 0
                | Some earliest \<Rightarrow> dt_sub_days (Naive now) earliest))"

definition calculate_learning_velocity ::
  "(string \<Rightarrow> pyexn + pydatetime) \<Rightarrow> int \<Rightarrow> candidate \<Rightarrow> pyexn + real" where
  "calculate_learning_velocity fromisoformat now candidate =
     (let competencies = c_competencies candidate
      in if competencies = [] then Inr 0
         else bind_exn (calculate_days_since_enrollment fromisoformat now candidate) (\<lambda>days_enrolled.
                if days_enrolled = 0 then Inr 0
                else (let avg_competency = np_mean (map cp_score competencies);
                          velocity = avg_competency / of_int (max days_enrolled 1) * 30
                      in Inr (min velocity 10))))"

definition is_completed_task :: "task \<Rightarrow> bool" where
  "is_completed_task t = (t_status t = Some ''completed'' \<and> t_score t \<noteq> None)"

definition task_score :: "task \<Rightarrow> real" where
  "task_score t = (case t_score t of None \<Rightarrow> 0 | Some s \<Rightarrow> s)"

definition calculate_improvement_trend :: "task list \<Rightarrow> real" where
  "calculate_improvement_trend tasks =
     (let completed_tasks = filter is_completed_task tasks
      in if length completed_tasks < 3 then 0.5
         else (let completed_tasks = sort_key t_completed_at completed_tasks;
                   scores = map task_score completed_tasks
               in if length scores > 1
                  then (let slope = polyfit_slope scores
                        in max 0 (min 1 ((slope + 5) / 10)))
                  else 0.5))"

definition calculate_consistency_score :: "task list \<Rightarrow> real" where
  "calculate_consistency_score tasks =
     (let completed_tasks = filter is_completed_task tasks
      in if length completed_tasks < 3 then 0.5
         else (let scores = map task_score completed_tasks;
                   cv = (if np_mean scores > 0 then np_std scores / np_mean scores else 1);
                   consistency = max 0 (1 - cv / 2)
               in min consistency 1))"

fun recent_loop ::
  "(string \<Rightarrow> pyexn + pydatetime) \<Rightarrow> pydatetime \<Rightarrow> cand_interaction list
   \<Rightarrow> cand_interaction list \<Rightarrow> pyexn + cand_interaction list" where
  "recent_loop fromisoformat cutoff_date [] recent_interactions = Inr recent_interactions"
| "recent_loop fromisoformat cutoff_date (interaction # rest) recent_interactions =
     (if truthy_timestamp (in_created_at interaction)
      then (case as_datetime fromisoformat (in_created_at interaction) of
              Inl e \<Rightarrow> Inl e
            | Inr created_at \<Rightarrow>
                (case dt_ge created_at cutoff_date of
                   Inl e \<Rightarrow> Inl e
                 | Inr b \<Rightarrow>
                     recent_loop fromisoformat cutoff_date rest
                       (if b then recent_interactions @ [interaction] else recent_interactions)))
      else recent_loop fromisoformat cutoff_date rest recent_interactions)"

definition calculate_recent_activity ::
  "(string \<Rightarrow> pyexn + pydatetime) \<Rightarrow> int \<Rightarrow> cand_interaction list \<Rightarrow> pyexn + real" where
  "calculate_recent_activity fromisoformat now interactions =
     (if interactions = [] then Inr 0
      else bind_exn (recent_loop fromisoformat (Naive (now - 30 * 86400000000)) interactions [])
             (\<lambda>recent_interactions. Inr (min (real (length recent_interactions) / 20) 1)))"

definition interaction_weights :: "string \<rightharpoonup> real" where
  "interaction_weights =
     map_of [(''submit_task'', 1), (''view_content'', 0.3), (''chat_message'', 0.7),
             (''forum_post'', 0.8), (''take_quiz'', 0.9)]"

definition calculate_engagement_score :: "cand_interaction list \<Rightarrow> real" where
  "calculate_engagement_score interactions =
     (if interactions = [] then 0
      else (let total_score =
                  sum_list (map (\<lambda>interaction.
                     case interaction_weights (in_interaction_type interaction) of
                       None \<Rightarrow> 0.5 | Some weight \<Rightarrow> weight) interactions)
            in min (total_score / real (length interactions)) 1))"

text \<open>\<^verbatim>\<open>name.lower().replace(' ', '_')\<close>, for a competency name and for a required skill.\<close>

definition normalize_name :: "(string \<Rightarrow> string) \<Rightarrow> string \<Rightarrow> string" where
  "normalize_name lower s = replace_char CHR '' '' ''_'' (lower s)"

definition extract_candidate_features ::
  "(string \<Rightarrow> string) \<Rightarrow> (string \<Rightarrow> pyexn + pydatetime) \<Rightarrow> int \<Rightarrow> candidate
   \<Rightarrow> pyexn + features" where
  "extract_candidate_features lower fromisoformat now candidate =
     (let total_courses = length (c_enrollments candidate);
          completed_courses =
            length (filter (\<lambda>e. en_status e = Some ''completed'') (c_enrollments candidate));
          tasks = c_tasks candidate;
          completed_tasks = filter is_completed_task tasks;
          competencies = c_competencies candidate;
          competency_vector =
            fold (\<lambda>comp vec. vec(normalize_name lower (cp_competency_name comp) \<mapsto> cp_score comp))
              competencies Map.empty;
          interactions = c_interactions candidate
      in
      bind_exn (calculate_days_since_enrollment fromisoformat now candidate) (\<lambda>days.
      bind_exn (calculate_learning_velocity fromisoformat now candidate) (\<lambda>velocity.
      bind_exn (calculate_recent_activity fromisoformat now interactions) (\<lambda>recent.
        Inr \<lparr>f_candidate_id = c_id candidate,
             f_total_courses = total_courses,
             f_completed_courses = completed_courses,
             f_course_completion_rate = real completed_courses / real (max total_courses 1),
             f_avg_task_score =
               (if completed_tasks \<noteq> [] then np_mean (map task_score completed_tasks) else 0),
             f_total_tasks_completed = length completed_tasks,
             f_task_completion_rate = real (length completed_tasks) / real (max (length tasks) 1),
             f_avg_competency_score =
               (if competencies \<noteq> [] then np_mean (map cp_score competencies) else 0),
             f_max_competency_score =
               (if competencies \<noteq> [] then Max (set (map cp_score competencies)) else 0),
             f_competency_count = length competencies,
             f_competency_vector = competency_vector,
             f_days_since_enrollment = days,
             f_learning_velocity = velocity,
             f_improvement_trend = calculate_improvement_trend tasks,
             f_consistency_score = calculate_consistency_score tasks,
             f_total_interactions = length interactions,
             f_recent_activity = recent,
             f_engagement_score = calculate_engagement_score interactions\<rparr>))))"

subsection \<open>\<^verbatim>\<open>calculate_skill_match_score\<close>\<close>

definition get_proficiency_level :: "real \<Rightarrow> string" where
  "get_proficiency_level score =
     (if score \<ge> 90 then ''expert''
      else if score \<ge> 80 then ''advanced''
      else if score \<ge> 70 then ''intermediate''
      else if score \<ge> 60 then ''beginner''
      else ''novice'')"

record matched_skill =
  ms_skill :: string
  ms_score :: real
  ms_proficiency :: string

record skill_match =
  sm_score :: real
  sm_match_rate :: "real option"
  sm_avg_skill_score :: "real option"
  sm_matched_skills :: "matched_skill list"
  sm_missing_skills :: "string list"

text \<open>
  The loop over the required skills, on the three lists it appends to:
  \<^verbatim>\<open>matched_skills\<close>, \<^verbatim>\<open>missing_skills\<close> and \<^verbatim>\<open>skill_scores\<close>.
\<close>

fun skill_loop ::
  "(string \<Rightarrow> string) \<Rightarrow> (string \<rightharpoonup> real) \<Rightarrow> string list
   \<Rightarrow> matched_skill list \<times> string list \<times> real list
   \<Rightarrow> matched_skill list \<times> string list \<times> real list" where
  "skill_loop lower candidate_competencies [] acc = acc"
| "skill_loop lower candidate_competencies (skill # rest) (matched_skills, missing_skills, skill_scores) =
     (let skill_normalized = normalize_name lower skill
      in case candidate_competencies skill_normalized of
           Some score \<Rightarrow>
             skill_loop lower candidate_competencies rest
               (matched_skills @
                  [\<lparr>ms_skill = skill, ms_score = score,
                    ms_proficiency = get_proficiency_level score\<rparr>],
                missing_skills,
                skill_scores @ [score])
         | None \<Rightarrow>
             skill_loop lower candidate_competencies rest
               (matched_skills, missing_skills @ [skill], skill_scores))"

text \<open>
  The early return for an empty list of required skills has neither \<^verbatim>\<open>match_rate\<close> nor
  \<^verbatim>\<open>avg_skill_score\<close>.
\<close>

definition calculate_skill_match_score ::
  "(string \<Rightarrow> string) \<Rightarrow> (string \<rightharpoonup> real) \<Rightarrow> string list \<Rightarrow> skill_match" where
  "calculate_skill_match_score lower candidate_competencies required_skills =
     (if required_skills = []
      then \<lparr>sm_score = 0, sm_match_rate = None, sm_avg_skill_score = None,
            sm_matched_skills = [], sm_missing_skills = []\<rparr>
      else (case skill_loop lower candidate_competencies required_skills ([], [], []) of
              (matched_skills, missing_skills, skill_scores) \<Rightarrow>
                let match_rate = real (length matched_skills) / real (length required_skills);
                    avg_skill_score = (if skill_scores \<noteq> [] then np_mean skill_scores else 0);
                    overall_score = (match_rate * 0.6 + (avg_skill_score / 100) * 0.4) * 100
                in \<lparr>sm_score = round2 overall_score,
                     sm_match_rate = Some (round2 (match_rate * 100)),
                     sm_avg_skill_score = Some (round2 avg_skill_score),
                     sm_matched_skills = matched_skills,
                     sm_missing_skills = missing_skills\<rparr>))"

subsection \<open>\<^verbatim>\<open>calculate_experience_match\<close>\<close>

record experience_match =
  em_score :: int
  em_candidate_level :: string
  em_required_level :: string
  em_match_quality :: string

text \<open>The estimate of the candidate's level from the competency score and the tenure.\<close>

definition estimate_candidate_level :: "real \<Rightarrow> int \<Rightarrow> string" where
  "estimate_candidate_level candidate_exp_score days_enrolled =
     (if candidate_exp_score \<ge> 85 \<and> days_enrolled \<ge> 365 then ''senior''
      else if candidate_exp_score \<ge> 70 \<and> days_enrolled \<ge> 180 then ''mid_level''
      else if candidate_exp_score \<ge> 60 then ''junior''
      else ''entry_level'')"

definition exp_mapping :: "string \<rightharpoonup> int" where
  "exp_mapping =
     map_of [(''entry_level'', 1), (''junior'', 2), (''mid_level'', 3), (''senior'', 4),
             (''executive'', 5)]"

definition calculate_experience_match :: "features \<Rightarrow> string \<Rightarrow> experience_match" where
  "calculate_experience_match candidate_features required_experience =
     (let candidate_exp_score = f_avg_competency_score candidate_features;
          days_enrolled = f_days_since_enrollment candidate_features;
          candidate_level = estimate_candidate_level candidate_exp_score days_enrolled;
          candidate_score = (case exp_mapping candidate_level of None \<Rightarrow> 2 | Some n \<Rightarrow> n);
          required_score = (case exp_mapping required_experience of None \<Rightarrow> 3 | Some n \<Rightarrow> n);
          match_score =
            (if candidate_score \<ge> required_score then 100
             else if candidate_score = required_score - 1 then 75
             else if candidate_score = required_score - 2 then 50
             else 25);
          match_quality =
            (if candidate_score \<ge> required_score then ''excellent''
             else if candidate_score = required_score - 1 then ''good''
             else if candidate_score = required_score - 2 then ''fair''
             else ''poor'')
      in \<lparr>em_score = match_score,
           em_candidate_level = candidate_level,
           em_required_level = required_experience,
           em_match_quality = match_quality\<rparr>)"

subsection \<open>The other sub-scores\<close>

definition calculate_performance_score :: "features \<Rightarrow> real" where
  "calculate_performance_score candidate_features =
     sum_list
       [f_avg_task_score candidate_features / 100 * 0.4,
        f_course_completion_rate candidate_features * 0.3,
        f_task_completion_rate candidate_features * 0.2,
        f_consistency_score candidate_features * 0.1] * 100"

definition calculate_learning_potential :: "features \<Rightarrow> real" where
  "calculate_learning_potential candidate_features =
     sum_list
       [f_improvement_trend candidate_features * 0.4,
        f_learning_velocity candidate_features / 10 * 0.3,
        f_engagement_score candidate_features * 0.2,
        f_recent_activity candidate_features * 0.1] * 100"

definition calculate_cultural_fit :: "features \<Rightarrow> real" where
  "calculate_cultural_fit candidate_features =
     (let base_score = 70;
          engagement_bonus = f_engagement_score candidate_features * 10;
          consistency_bonus = f_consistency_score candidate_features * 10;
          cultural_fit_score = base_score + engagement_bonus + consistency_bonus
      in min cultural_fit_score 100)"

subsection \<open>\<^verbatim>\<open>_generate_recommendation_reasons\<close>\<close>

text \<open>
  \<^verbatim>\<open>f"{x:.1f}"\<close> for the scores the reasons print, which are not negative, and
  \<^verbatim>\<open>', '.join(xs)\<close>.
\<close>

definition format_1f :: "real \<Rightarrow> string" where
  "format_1f x =
     (let n = nat (round_half_even (x * 10))
      in digits_of_nat (n div 10) @ ''.'' @ digits_of_nat (n mod 10))"

fun join_comma :: "string list \<Rightarrow> string" where
  "join_comma [] = ''''"
| "join_comma [x] = x"
| "join_comma (x # y # ys) = x @ '', '' @ join_comma (y # ys)"

definition generate_recommendation_reasons ::
  "skill_match \<Rightarrow> experience_match \<Rightarrow> real \<Rightarrow> real \<Rightarrow> string list" where
  "generate_recommendation_reasons skill_match experience_match performance_score learning_potential =
     (let reasons = [];
          reasons =
            (if sm_score skill_match \<ge> 80
             then reasons @ [''Excellent skill match ('' @ format_1f (sm_score skill_match) @ ''%)'']
             else if sm_score skill_match \<ge> 60
             then reasons @ [''Good skill alignment ('' @ format_1f (sm_score skill_match) @ ''%)'']
             else reasons);
          reasons =
            (if em_score experience_match \<ge> 75
             then reasons @ [''Strong experience match ('' @ em_match_quality experience_match @ '')'']
             else reasons);
          reasons =
            (if performance_score \<ge> 80 then reasons @ [''High performance track record'']
             else if performance_score \<ge> 60 then reasons @ [''Solid performance history'']
             else reasons);
          reasons =
            (if learning_potential \<ge> 80 then reasons @ [''Excellent learning potential'']
             else if learning_potential \<ge> 60 then reasons @ [''Good growth potential'']
             else reasons);
          matched_skills = sm_matched_skills skill_match;
          expert_skills = map ms_skill (filter (\<lambda>skill. ms_score skill \<ge> 90) matched_skills)
      in if expert_skills \<noteq> []
         then reasons @ [''Expert level in: '' @ join_comma (take 3 expert_skills)]
         else reasons)"

subsection \<open>\<^verbatim>\<open>recommend_candidates\<close>\<close>

record recommendation =
  r_candidate_id :: pyval
  r_candidate_name :: string
  r_overall_score :: real
  r_skill_match :: skill_match
  r_experience_match :: experience_match
  r_performance_score :: real
  r_learning_potential :: real
  r_cultural_fit :: real
  r_recommendation_reasons :: "string list"
  r_areas_for_development :: "string list"
  r_strengths :: "string list"

record parsed_jd =
  pj_skills :: "(string \<times> string list) list"
  pj_experience_level :: "string option"

record job_description =
  jd_parsed_requirements :: "parsed_jd option"
  jd_description_text :: string
  jd_title :: string

text \<open>
  The body of the inner \<^verbatim>\<open>try\<close>: the features of one candidate, its sub-scores and
  its entry.  The weights are \<^verbatim>\<open>self.recommendation_weights\<close>.
\<close>

definition process_candidate ::
  "(string \<Rightarrow> string) \<Rightarrow> (string \<Rightarrow> pyexn + pydatetime) \<Rightarrow> int \<Rightarrow> string list \<Rightarrow> string
   \<Rightarrow> candidate \<Rightarrow> pyexn + recommendation" where
  "process_candidate lower fromisoformat now required_skills required_experience candidate =
     bind_exn (extract_candidate_features lower fromisoformat now candidate) (\<lambda>candidate_features.
       let skill_match =
             calculate_skill_match_score lower (f_competency_vector candidate_features) required_skills;
           experience_match = calculate_experience_match candidate_features required_experience;
           performance_score = calculate_performance_score candidate_features;
           learning_potential = calculate_learning_potential candidate_features;
           cultural_fit = calculate_cultural_fit candidate_features;
           overall_score =
             sm_score skill_match * 0.35 +
             of_int (em_score experience_match) * 0.25 +
             performance_score * 0.20 +
             learning_potential * 0.15 +
             cultural_fit * 0.05
       in Inr \<lparr>r_candidate_id = c_id candidate,
               r_candidate_name = (case c_full_name candidate of None \<Rightarrow> ''Unknown'' | Some n \<Rightarrow> n),
               r_overall_score = round2 overall_score,
               r_skill_match = skill_match,
               r_experience_match = experience_match,
               r_performance_score = round2 performance_score,
               r_learning_potential = round2 learning_potential,
               r_cultural_fit = round2 cultural_fit,
               r_recommendation_reasons =
                 generate_recommendation_reasons skill_match experience_match
                   performance_score learning_potential,
               r_areas_for_development = sm_missing_skills skill_match,
               r_strengths =
                 map ms_skill (filter (\<lambda>skill. ms_score skill \<ge> 80) (sm_matched_skills skill_match))\<rparr>)"

text \<open>
  The loop over the candidates: an exception of the body is logged and the loop goes on
  with the next candidate.
\<close>

fun recommend_loop ::
  "(string \<Rightarrow> string) \<Rightarrow> (string \<Rightarrow> pyexn + pydatetime) \<Rightarrow> int \<Rightarrow> string list \<Rightarrow> string
   \<Rightarrow> candidate list \<Rightarrow> recommendation list \<Rightarrow> recommendation list" where
  "recommend_loop lower fromisoformat now required_skills required_experience [] recommendations =
     recommendations"
| "recommend_loop lower fromisoformat now required_skills required_experience (candidate # rest)
     recommendations =
     (case process_candidate lower fromisoformat now required_skills required_experience candidate of
        Inl e \<Rightarrow>
          recommend_loop lower fromisoformat now required_skills required_experience rest
            recommendations
      | Inr recommendation \<Rightarrow>
          recommend_loop lower fromisoformat now required_skills required_experience rest
            (recommendations @ [recommendation]))"

text \<open>The slice \<^verbatim>\<open>xs[:k]\<close>: a negative \<open>k\<close> counts from the end of the list.\<close>

definition py_slice_to :: "'a list \<Rightarrow> int \<Rightarrow> 'a list" where
  "py_slice_to xs k = (if k \<ge> 0 then take (nat k) xs else take (nat (int (length xs) + k)) xs)"

text \<open>
  \<^verbatim>\<open>jd_parser.parse_job_description\<close> is the parameter \<open>parse_job_description\<close>; it
  catches its own exceptions and always returns a dictionary.  \<^verbatim>\<open>list.sort\<close> with
  \<^verbatim>\<open>reverse=True\<close> is stable, as is \<open>sort_key\<close> on the negated score.  With typed
  arguments nothing outside the inner \<^verbatim>\<open>try\<close> raises, so the outer \<^verbatim>\<open>except\<close>, which
  returns the empty list, is never entered.
\<close>

text \<open>
  The first lines of \<^verbatim>\<open>recommend_candidates\<close>: the parsed job description, the
  required skills of all its categories and the required experience level.
\<close>

definition jd_requirements ::
  "(string \<Rightarrow> string \<Rightarrow> parsed_jd) \<Rightarrow> job_description \<Rightarrow> string list \<times> string" where
  "jd_requirements parse_job_description job_description =
     (let parsed_jd =
            (case jd_parsed_requirements job_description of
               None \<Rightarrow> parse_job_description (jd_description_text job_description)
                         (jd_title job_description)
             | Some p \<Rightarrow> p);
          jd_skills = pj_skills parsed_jd;
          required_skills = concat (map snd jd_skills);
          required_experience =
            (case pj_experience_level parsed_jd of None \<Rightarrow> ''mid_level'' | Some l \<Rightarrow> l)
      in (required_skills, required_experience))"

definition recommend_candidates ::
  "(string \<Rightarrow> string) \<Rightarrow> (string \<Rightarrow> pyexn + pydatetime) \<Rightarrow> int
   \<Rightarrow> (string \<Rightarrow> string \<Rightarrow> parsed_jd) \<Rightarrow> job_description \<Rightarrow> candidate list \<Rightarrow> int
   \<Rightarrow> recommendation list" where
  "recommend_candidates lower fromisoformat now parse_job_description job_description candidates top_k =
     (let required_skills = fst (jd_requirements parse_job_description job_description);
          required_experience = snd (jd_requirements parse_job_description job_description);
          recommendations =
            recommend_loop lower fromisoformat now required_skills required_experience candidates [];
          recommendations = sort_key (\<lambda>x. - r_overall_score x) recommendations
      in py_slice_to recommendations top_k)"

subsection \<open>The documented sub-scores\<close>

text \<open>
  The definitions of this subsection are not translations of code: they are the
  quantities the documentation of the match engine speaks of.  The required skills that
  are present in a competency vector (under the normalisation of names) give the match
  rate and the average matched score; a level has a rank in the ordering
  \<open>entry_level\<close>, \<open>junior\<close>, \<open>mid_level\<close>, \<open>senior\<close>, \<open>executive\<close>, an unrecognised
  required level having the rank of \<open>mid_level\<close>.
\<close>

definition matched_scores :: "(string \<Rightarrow> string) \<Rightarrow> (string \<rightharpoonup> real) \<Rightarrow> string list \<Rightarrow> real list" where
  "matched_scores lower vec required = List.map_filter (\<lambda>s. vec (normalize_name lower s)) required"

definition match_rate :: "(string \<Rightarrow> string) \<Rightarrow> (string \<rightharpoonup> real) \<Rightarrow> string list \<Rightarrow> real" where
  "match_rate lower vec required =
     real (length (matched_scores lower vec required)) / real (length required)"


definition required_rank :: "string \<Rightarrow> int" where
  "required_rank level = (case exp_mapping level of None \<Rightarrow> 3 | Some n \<Rightarrow> n)"

definition candidate_rank :: "features \<Rightarrow> int" where
  "candidate_rank candidate_features =
     (case exp_mapping (estimate_candidate_level (f_avg_competency_score candidate_features)
                          (f_days_since_enrollment candidate_features)) of
        None \<Rightarrow> 2 | Some n \<Rightarrow> n)"

text \<open>The step function of a bucket distance: 0, 1, 2 and more give 100, 75, 50 and 25.\<close>

definition distance_score :: "int \<Rightarrow> int" where
  "distance_score d = (if d = 0 then 100 else if d = 1 then 75 else if d = 2 then 50 else 25)"



section \<open>Properties of the lead scorer\<close>

subsection \<open>Auxiliary facts\<close>

lemma bind_exn_Inr: "bind_exn m f = Inr y \<longleftrightarrow> (\<exists>x. m = Inr x \<and> f x = Inr y)"
  by (cases m) (simp_all add: bind_exn_def)

lemma bind_exn_Inl: "bind_exn m f = Inl e \<longleftrightarrow> (m = Inl e \<or> (\<exists>x. m = Inr x \<and> f x = Inl e))"
  by (cases m) (simp_all add: bind_exn_def)

lemma enterprise_loop_eq:
  "enterprise_loop ks c s = s + (if \<exists>k \<in> set ks. str_in k c then 30 else 0)"
  by (induction ks) auto

lemma positive_loop_eq:
  "positive_loop ks c s = s + 5 * int (length (filter (\<lambda>k. str_in k c) ks))"
  by (induction ks arbitrary: s) auto

lemma negative_loop_eq:
  "negative_loop ks c b = (if \<exists>k \<in> set ks. str_in k c then True else b)"
  by (induction ks) auto

lemma pattern_loop_eq:
  "pattern_loop re_search ps c b = (if \<exists>p \<in> set ps. re_search p c then True else b)"
  by (induction ps) auto

lemma message_points_nonneg: "0 \<le> message_points lower c"
  by (simp add: message_points_def)

lemma analyze_str:
  "analyze_content_nlp lower re_search (PStr c) =
     (message_points lower c, negative_match lower re_search c)"
  by (auto simp add: analyze_content_nlp_def Let_def enterprise_loop_eq positive_loop_eq
      negative_loop_eq pattern_loop_eq message_points_def negative_match_def)

lemma analyze_not_str:
  "(\<And>c. v \<noteq> PStr c) \<Longrightarrow> analyze_content_nlp lower re_search v = (0, False)"
  by (cases v) (auto simp add: analyze_content_nlp_def)

lemma rule_pricing_Inr:
  "rule_pricing lower v = Inr r \<Longrightarrow> \<exists>u. v = PStr u \<and> r = (str_in ''pricing'' (lower u) \<or> str_in ''gia'' (lower u))"
  by (cases v) (auto simp add: rule_pricing_def bind_exn_def split: if_splits)

lemma rule_python_Inr:
  "rule_python lower v c d = Inr r \<Longrightarrow>
     \<exists>u. v = PStr u \<and>
       r = ((str_in ''python'' (lower u) \<or> (case c of PStr c' \<Rightarrow> str_in ''python'' (lower c') | _ \<Rightarrow> False))
            \<and> exceeds d 180)"
  apply (cases v; cases c)
  apply (auto simp add: rule_python_def bind_exn_def exceeds_def split: if_splits sum.splits)
  done

lemma rule_form_Inr:
  "rule_form lower v = Inr r \<Longrightarrow>
     r = (case v of PStr t \<Rightarrow> t = ''form_submission'' \<or> str_in ''contact'' (lower t) | _ \<Rightarrow> False)"
  by (cases v) (auto simp add: rule_form_def bind_exn_def py_eq_str_def split: if_splits)

lemma rule_message_eq: "rule_message (dict_get e ''type'' (PStr '''')) (dict_get e ''content'' (PStr '''')) = is_message e"
  by (auto simp add: rule_message_def is_message_def py_eq_str_def)

lemma analyze_eq_spec:
  "is_message e \<Longrightarrow> analyze_content_nlp lower re_search (dict_get e ''content'' (PStr ''''))
     = (nlp_contribution lower e, negative_message lower re_search e)"
  by (cases "dict_get e ''content'' (PStr '''')")
     (simp_all add: analyze_str analyze_not_str nlp_contribution_def negative_message_def)

lemma score_interaction_eq:
  "score_interaction lower re_search e (t, n, d) =
     bind_exn (rule_pricing lower (dict_get e ''page_url'' (PStr ''''))) (\<lambda>r1.
     bind_exn (rule_python lower (dict_get e ''page_url'' (PStr '''')) (dict_get e ''content'' (PStr ''''))
           (dict_get e ''duration'' (PInt 0))) (\<lambda>r2.
     bind_exn (rule_form lower (dict_get e ''type'' (PStr ''''))) (\<lambda>r3.
       Inr (t + ((if r1 then 10 else 0) + (if r2 then 15 else 0) + (if r3 then 20 else 0)
                 + (if is_message e
                    then fst (analyze_content_nlp lower re_search (dict_get e ''content'' (PStr '''')))
                    else 0)),
            n \<or> (is_message e
                 \<and> snd (analyze_content_nlp lower re_search (dict_get e ''content'' (PStr '''')))),
            d @ (if r1 then [''Visited pricing page (+10)''] else [])
              @ (if r2 then [''Viewed Python course >3min (+15)''] else [])
              @ (if r3 then [''Submitted contact form (+20)''] else [])
              @ (if is_message e
                      \<and> snd (analyze_content_nlp lower re_search (dict_get e ''content'' (PStr '''')))
                 then [negative_line] else [])
              @ (if is_message e
                      \<and> 0 < fst (analyze_content_nlp lower re_search (dict_get e ''content'' (PStr '''')))
                 then [nlp_line (fst (analyze_content_nlp lower re_search
                                        (dict_get e ''content'' (PStr ''''))))]
                 else [])))))"
proof (cases "rule_pricing lower (dict_get e ''page_url'' (PStr ''''))")
  case Inl
  then show ?thesis by (simp add: score_interaction_def bind_exn_def)
next
  case r1: (Inr r1)
  show ?thesis
  proof (cases "rule_python lower (dict_get e ''page_url'' (PStr '''')) (dict_get e ''content'' (PStr ''''))
           (dict_get e ''duration'' (PInt 0))")
    case Inl
    with r1 show ?thesis by (simp add: score_interaction_def bind_exn_def Let_def)
  next
    case r2: (Inr r2)
    show ?thesis
    proof (cases "rule_form lower (dict_get e ''type'' (PStr ''''))")
      case Inl
      with r1 r2 show ?thesis by (simp add: score_interaction_def bind_exn_def Let_def)
    next
      case r3: (Inr r3)
      with r1 r2 show ?thesis
        by (simp add: score_interaction_def bind_exn_def Let_def rule_message_eq)
    qed
  qed
qed

lemma nlp_contribution_nonneg: "0 \<le> nlp_contribution lower e"
  by (simp add: nlp_contribution_def message_points_nonneg split: pyval.splits)

lemma score_interaction_Inr:
  assumes "score_interaction lower re_search e (t, n, d) = Inr (t', n', d')"
  shows "t' = t + sum_list (map fst (contributions lower e))
       \<and> n' = (n \<or> negative_message lower re_search e)
       \<and> d' = d @ trace_lines lower re_search e"
proof -
  from assms obtain r1 r2 r3 where
    r1: "rule_pricing lower (dict_get e ''page_url'' (PStr '''')) = Inr r1" and
    r2: "rule_python lower (dict_get e ''page_url'' (PStr '''')) (dict_get e ''content'' (PStr ''''))
           (dict_get e ''duration'' (PInt 0)) = Inr r2" and
    r3: "rule_form lower (dict_get e ''type'' (PStr '''')) = Inr r3"
    unfolding score_interaction_eq bind_exn_Inr by blast
  have v1: "r1 = visits_pricing lower e"
    using rule_pricing_Inr[OF r1] by (auto simp add: visits_pricing_def)
  have v2: "r2 = long_python_view lower e"
    using rule_python_Inr[OF r2] by (auto simp add: long_python_view_def)
  have v3: "r3 = submits_form lower e"
    using rule_form_Inr[OF r3] by (auto simp add: submits_form_def)
  define a where "a = analyze_content_nlp lower re_search (dict_get e ''content'' (PStr ''''))"
  have a_eq: "fst a = nlp_contribution lower e" "snd a = negative_message lower re_search e"
    if "is_message e"
    using analyze_eq_spec[OF that, of lower re_search] by (simp_all add: a_def)
  have nm: "nlp_contribution lower e = 0" "\<not> negative_message lower re_search e"
    if "\<not> is_message e"
    using that by (simp_all add: nlp_contribution_def negative_message_def)
  from assms have res:
    "t' = t + ((if r1 then 10 else 0) + (if r2 then 15 else 0) + (if r3 then 20 else 0)
                 + (if is_message e then fst a else 0))"
    "n' = (n \<or> (is_message e \<and> snd a))"
    "d' = d @ (if r1 then [''Visited pricing page (+10)''] else [])
              @ (if r2 then [''Viewed Python course >3min (+15)''] else [])
              @ (if r3 then [''Submitted contact form (+20)''] else [])
              @ (if is_message e \<and> snd a then [negative_line] else [])
              @ (if is_message e \<and> 0 < fst a then [nlp_line (fst a)] else [])"
    unfolding score_interaction_eq r1 r2 r3 a_def[symmetric]
    by (simp_all add: bind_exn_def)
  show ?thesis
  proof (cases "is_message e")
    case True
    show ?thesis
      unfolding res v1 v2 v3
      using nlp_contribution_nonneg[of lower e]
      by (simp add: True a_eq[OF True] contributions_def trace_lines_def)
  next
    case False
    show ?thesis
      unfolding res v1 v2 v3
      by (simp add: False nm[OF False] contributions_def trace_lines_def)
  qed
qed

lemma score_loop_Inr:
  "score_loop lower re_search evs (t, n, d) = Inr (t', n', d') \<Longrightarrow>
     t' = t + sum_list (map fst (concat (map (contributions lower) evs)))
     \<and> n' = (n \<or> (\<exists>e \<in> set evs. negative_message lower re_search e))
     \<and> d' = d @ concat (map (trace_lines lower re_search) evs)"
proof (induction evs arbitrary: t n d)
  case Nil
  then show ?case by simp
next
  case (Cons e evs)
  from Cons.prems obtain st where
    st: "score_interaction lower re_search e (t, n, d) = Inr st" and
    rest: "score_loop lower re_search evs st = Inr (t', n', d')"
    by (auto simp add: bind_exn_Inr)
  obtain t1 n1 d1 where st_eq: "st = (t1, n1, d1)" by (cases st) auto
  from score_interaction_Inr[OF st[unfolded st_eq]] Cons.IH[OF rest[unfolded st_eq]]
  show ?case by auto
qed

lemma score_loop_append:
  "score_loop lower re_search (xs @ ys) st =
     bind_exn (score_loop lower re_search xs st) (score_loop lower re_search ys)"
proof (induction xs arbitrary: st)
  case Nil
  then show ?case by (simp add: bind_exn_def)
next
  case (Cons x xs)
  then show ?case
    by (cases "score_interaction lower re_search x st") (simp_all add: bind_exn_def)
qed

lemma well_typed_score_interaction:
  assumes "well_typed e"
  shows "\<exists>st'. score_interaction lower re_search e st = Inr st'"
proof -
  from assms obtain ty c u where
    f: "dict_get e ''type'' (PStr '''') = PStr ty" "dict_get e ''content'' (PStr '''') = PStr c"
       "dict_get e ''page_url'' (PStr '''') = PStr u"
    and num: "is_number (dict_get e ''duration'' (PInt 0))"
    unfolding well_typed_def
    by (metis is_str.elims(2))
  from num have "\<exists>b. py_gt_int (dict_get e ''duration'' (PInt 0)) 180 = Inr b"
    by (cases "dict_get e ''duration'' (PInt 0)") simp_all
  moreover obtain t n d where "st = (t, n, d)"
    using prod_cases3 by blast
  ultimately show ?thesis
    by (auto simp add: score_interaction_eq f rule_pricing_def rule_python_def rule_form_def bind_exn_def)
qed

lemma well_typed_score_loop:
  "\<forall>e \<in> set evs. well_typed e \<Longrightarrow> \<exists>st'. score_loop lower re_search evs st = Inr st'"
proof (induction evs arbitrary: st)
  case Nil
  show ?case by (rule exI[of _ st]) simp
next
  case (Cons e evs)
  then obtain st1 where "score_interaction lower re_search e st = Inr st1"
    using well_typed_score_interaction[of e lower re_search st] by auto
  with Cons show ?case by (simp add: bind_exn_def)
qed

lemma contributions_nonneg: "0 \<le> sum_list (map fst (contributions lower e))"
  using nlp_contribution_nonneg[of lower e] by (simp add: contributions_def)

lemma contributions_concat_nonneg:
  "0 \<le> sum_list (map fst (concat (map (contributions lower) evs)))"
  by (induction evs) (simp_all add: contributions_nonneg)

lemma nlp_line_not_negative: "nlp_line k \<noteq> negative_line"
  by (simp add: nlp_line_def negative_line_def)

lemma trace_lines_contributions:
  "filter (\<lambda>l. l \<noteq> negative_line) (trace_lines lower re_search e) = map snd (contributions lower e)"
  using nlp_line_not_negative[of "nlp_contribution lower e"]
  by (simp add: trace_lines_def contributions_def) (simp add: negative_line_def)

lemma trace_concat_contributions:
  "filter (\<lambda>l. l \<noteq> negative_line) (concat (map (trace_lines lower re_search) evs))
     = map snd (concat (map (contributions lower) evs))"
  by (induction evs) (simp_all add: trace_lines_contributions)

lemma score_lead_error:
  "error (score_lead lower re_search utcnow evs) = None \<longleftrightarrow>
     (\<exists>st. score_loop lower re_search evs (0, False, []) = Inr st)"
  by (cases "score_loop lower re_search evs (0, False, [])")
     (auto simp add: score_lead_def)

subsection \<open>The claims\<close>

text \<open>
  C1. For every numeric score, the quality tier is \<open>hot\<close> exactly from 80 on,
  \<open>warm\<close> exactly on 60 up to (not including) 80, \<open>medium\<close> exactly on 40 up to 60,
  \<open>cold\<close> exactly on 20 up to 40 and \<open>very_cold\<close> exactly below 20: every boundary
  belongs to the tier above it.
\<close>

theorem C1_quality_tiers:
  "(determine_lead_quality s = ''hot'' \<longleftrightarrow> s \<ge> 80) \<and>
   (determine_lead_quality s = ''warm'' \<longleftrightarrow> 60 \<le> s \<and> s < 80) \<and>
   (determine_lead_quality s = ''medium'' \<longleftrightarrow> 40 \<le> s \<and> s < 60) \<and>
   (determine_lead_quality s = ''cold'' \<longleftrightarrow> 20 \<le> s \<and> s < 40) \<and>
   (determine_lead_quality s = ''very_cold'' \<longleftrightarrow> s < 20) \<and>
   determine_lead_quality 79 = ''warm'' \<and> determine_lead_quality 80 = ''hot'' \<and>
   determine_lead_quality 59 = ''medium'' \<and> determine_lead_quality 60 = ''warm'' \<and>
   determine_lead_quality 39 = ''cold'' \<and> determine_lead_quality 40 = ''medium'' \<and>
   determine_lead_quality 19 = ''very_cold'' \<and> determine_lead_quality 20 = ''cold''"
  by (simp add: determine_lead_quality_def)

text \<open>
  C4 as stated fails where an event makes the loop raise: a pricing-page visit followed by
  a chat event whose \<^verbatim>\<open>page_url\<close> is \<^verbatim>\<open>None\<close> has one documented contribution of
  10 points, and \<^verbatim>\<open>score_lead\<close> returns the score 0.  No pattern matches the text
  \<^verbatim>\<open>hello\<close>, which is what the second argument says.
\<close>

theorem C4_counterexample:
  "lead_score (score_lead ascii_lower (\<lambda>p s. False) ''2024-01-15T11:00:00''
      [[''type'' \<mapsto> PStr ''page_visit'', ''page_url'' \<mapsto> PStr ''/pricing''],
       [''type'' \<mapsto> PStr ''chat'', ''content'' \<mapsto> PStr ''hello'', ''page_url'' \<mapsto> PNone]]) = 0
   \<and> sum_list (map fst (concat (map (contributions ascii_lower)
      [[''type'' \<mapsto> PStr ''page_visit'', ''page_url'' \<mapsto> PStr ''/pricing''],
       [''type'' \<mapsto> PStr ''chat'', ''content'' \<mapsto> PStr ''hello'', ''page_url'' \<mapsto> PNone]]))) = 10"
proof -
  have "score_loop ascii_lower (\<lambda>p s. False)
      [[''type'' \<mapsto> PStr ''page_visit'', ''page_url'' \<mapsto> PStr ''/pricing''],
       [''type'' \<mapsto> PStr ''chat'', ''content'' \<mapsto> PStr ''hello'', ''page_url'' \<mapsto> PNone]]
      (0, False, [])
    = Inl (AttributeError (quoted ''NoneType'' @ '' object has no attribute '' @ quoted ''lower''))"
    by (simp add: score_interaction_def rule_pricing_def rule_python_def rule_form_def
        rule_message_def bind_exn_def dict_get_def ascii_lower_def py_eq_str_def Let_def)
  then have "lead_score (score_lead ascii_lower (\<lambda>p s. False) ''2024-01-15T11:00:00''
      [[''type'' \<mapsto> PStr ''page_visit'', ''page_url'' \<mapsto> PStr ''/pricing''],
       [''type'' \<mapsto> PStr ''chat'', ''content'' \<mapsto> PStr ''hello'', ''page_url'' \<mapsto> PNone]]) = 0"
    by (simp add: score_lead_def)
  moreover have "sum_list (map fst (concat (map (contributions ascii_lower)
      [[''type'' \<mapsto> PStr ''page_visit'', ''page_url'' \<mapsto> PStr ''/pricing''],
       [''type'' \<mapsto> PStr ''chat'', ''content'' \<mapsto> PStr ''hello'', ''page_url'' \<mapsto> PNone]]))) = 10"
    by (simp add: contributions_def visits_pricing_def long_python_view_def submits_form_def
        nlp_contribution_def is_message_def message_points_def dict_get_def ascii_lower_def
        enterprise_keywords_def positive_keywords_def)
  ultimately show ?thesis by simp
qed

text \<open>
  C4, as the code has it.  Whenever \<^verbatim>\<open>score_lead\<close> processes the list without an
  internal exception, the total score is the sum of the documented contributions of all
  events (pricing page 10, long Python view 15, form submission 20, the points of each
  message), and the trace, its escalation notices left out, is the list of the lines
  of these contributions in processing order.  No exception occurs when every event is
  well typed.  In every case the total score is not negative.
\<close>

theorem C4_score_is_sum_of_contributions:
  "(error (score_lead lower re_search utcnow evs) = None \<longrightarrow>
      lead_score (score_lead lower re_search utcnow evs)
        = sum_list (map fst (concat (map (contributions lower) evs)))
      \<and> filter (\<lambda>l. l \<noteq> negative_line) (interaction_details (score_lead lower re_search utcnow evs))
        = map snd (concat (map (contributions lower) evs)))
   \<and> ((\<forall>e \<in> set evs. well_typed e) \<longrightarrow> error (score_lead lower re_search utcnow evs) = None)
   \<and> 0 \<le> lead_score (score_lead lower re_search utcnow evs)"
proof (cases "score_loop lower re_search evs (0, False, [])")
  case (Inl e)
  then have err: "error (score_lead lower re_search utcnow evs) \<noteq> None"
    and zero: "lead_score (score_lead lower re_search utcnow evs) = 0"
    by (simp_all add: score_lead_def)
  from Inl well_typed_score_loop[of evs lower re_search "(0, False, [])"]
  have "\<not> (\<forall>e \<in> set evs. well_typed e)" by auto
  with err zero show ?thesis by auto
next
  case (Inr st)
  obtain t n d where st: "st = (t, n, d)" using prod_cases3 by blast
  from score_loop_Inr[OF Inr[unfolded st]]
  have t: "t = sum_list (map fst (concat (map (contributions lower) evs)))"
    and d: "d = concat (map (trace_lines lower re_search) evs)"
    by simp_all
  have res: "error (score_lead lower re_search utcnow evs) = None"
    "lead_score (score_lead lower re_search utcnow evs) = t"
    "interaction_details (score_lead lower re_search utcnow evs) = d"
    using Inr by (simp_all add: score_lead_def st)
  show ?thesis
    unfolding res t d
    by (simp add: trace_concat_contributions contributions_concat_nonneg)
qed

text \<open>
  The example of the specification: a pricing-page visit, a Python page viewed for 240
  seconds and a form submission give 10 + 15 + 20 = 45, quality \<open>medium\<close>.
\<close>

theorem C4_witness:
  "error (score_lead ascii_lower (\<lambda>p s. False) ''2024-01-15T11:00:00''
     [[''type'' \<mapsto> PStr ''page_visit'', ''page_url'' \<mapsto> PStr ''/pricing'',
       ''duration'' \<mapsto> PInt 45, ''content'' \<mapsto> PStr ''''],
      [''type'' \<mapsto> PStr ''page_visit'', ''page_url'' \<mapsto> PStr ''/courses/python-advanced'',
       ''duration'' \<mapsto> PInt 240, ''content'' \<mapsto> PStr ''Python advanced course details''],
      [''type'' \<mapsto> PStr ''form_submission'', ''page_url'' \<mapsto> PStr ''/contact'',
       ''duration'' \<mapsto> PInt 0, ''content'' \<mapsto> PStr '''']]) = None
   \<and> sum_list (map fst (concat (map (contributions ascii_lower)
     [[''type'' \<mapsto> PStr ''page_visit'', ''page_url'' \<mapsto> PStr ''/pricing'',
       ''duration'' \<mapsto> PInt 45, ''content'' \<mapsto> PStr ''''],
      [''type'' \<mapsto> PStr ''page_visit'', ''page_url'' \<mapsto> PStr ''/courses/python-advanced'',
       ''duration'' \<mapsto> PInt 240, ''content'' \<mapsto> PStr ''Python advanced course details''],
      [''type'' \<mapsto> PStr ''form_submission'', ''page_url'' \<mapsto> PStr ''/contact'',
       ''duration'' \<mapsto> PInt 0, ''content'' \<mapsto> PStr '''']]))) = 45
   \<and> map snd (concat (map (contributions ascii_lower)
     [[''type'' \<mapsto> PStr ''page_visit'', ''page_url'' \<mapsto> PStr ''/pricing'',
       ''duration'' \<mapsto> PInt 45, ''content'' \<mapsto> PStr ''''],
      [''type'' \<mapsto> PStr ''page_visit'', ''page_url'' \<mapsto> PStr ''/courses/python-advanced'',
       ''duration'' \<mapsto> PInt 240, ''content'' \<mapsto> PStr ''Python advanced course details''],
      [''type'' \<mapsto> PStr ''form_submission'', ''page_url'' \<mapsto> PStr ''/contact'',
       ''duration'' \<mapsto> PInt 0, ''content'' \<mapsto> PStr '''']]))
     = [''Visited pricing page (+10)'', ''Viewed Python course >3min (+15)'',
        ''Submitted contact form (+20)'']
   \<and> determine_lead_quality 45 = ''medium''"
proof -
  let ?evs = "[[''type'' \<mapsto> PStr ''page_visit'', ''page_url'' \<mapsto> PStr ''/pricing'',
       ''duration'' \<mapsto> PInt 45, ''content'' \<mapsto> PStr ''''],
      [''type'' \<mapsto> PStr ''page_visit'', ''page_url'' \<mapsto> PStr ''/courses/python-advanced'',
       ''duration'' \<mapsto> PInt 240, ''content'' \<mapsto> PStr ''Python advanced course details''],
      [''type'' \<mapsto> PStr ''form_submission'', ''page_url'' \<mapsto> PStr ''/contact'',
       ''duration'' \<mapsto> PInt 0, ''content'' \<mapsto> PStr '''']]"
  have wt: "\<forall>e \<in> set ?evs. well_typed e"
    by (simp add: well_typed_def dict_get_def)
  have ev: "score_lead ascii_lower (\<lambda>p s. False) ''2024-01-15T11:00:00'' ?evs
   = \<lparr>lead_score = 45, quality = ''medium'', needs_human_intervention = False,
      interaction_details = [''Visited pricing page (+10)'', ''Viewed Python course >3min (+15)'',
        ''Submitted contact form (+20)''],
      total_interactions = Some 3, scored_at = Some ''2024-01-15T11:00:00'', error = None\<rparr>"
    by (simp add: score_lead_def score_interaction_def rule_pricing_def rule_python_def
      rule_form_def rule_message_def bind_exn_def dict_get_def ascii_lower_def py_eq_str_def
      determine_lead_quality_def Let_def)
  note inst = C4_score_is_sum_of_contributions
    [of ascii_lower "\<lambda>p s. False" "''2024-01-15T11:00:00''" ?evs]
  have e: "error (score_lead ascii_lower (\<lambda>p s. False) ''2024-01-15T11:00:00'' ?evs) = None"
    by (rule mp[OF conjunct1[OF conjunct2[OF inst]] wt])
  note both = mp[OF conjunct1[OF inst] e]
  from e both show ?thesis
    unfolding ev by (simp add: negative_line_def determine_lead_quality_def)
qed

text \<open>
  C5. For every message text, the loop over the enterprise keywords adds 30 when at least
  one enterprise keyword occurs in the lower-cased text and nothing otherwise, so the score
  of the message is that amount plus 5 for each positive keyword that occurs; when two or
  more enterprise keywords occur together the loop still adds exactly 30.
\<close>

theorem C5_enterprise_once:
  "enterprise_loop enterprise_keywords (lower c) score
     = score + (if \<exists>k \<in> set enterprise_keywords. str_in k (lower c) then 30 else 0)
   \<and> fst (analyze_content_nlp lower re_search (PStr c))
     = (if \<exists>k \<in> set enterprise_keywords. str_in k (lower c) then 30 else 0)
       + 5 * int (length (filter (\<lambda>k. str_in k (lower c)) positive_keywords))
   \<and> (2 \<le> length (filter (\<lambda>k. str_in k (lower c)) enterprise_keywords)
        \<longrightarrow> enterprise_loop enterprise_keywords (lower c) score = score + 30)"
proof -
  have "\<exists>k \<in> set enterprise_keywords. str_in k (lower c)"
    if "2 \<le> length (filter (\<lambda>k. str_in k (lower c)) enterprise_keywords)"
  proof -
    from that have "filter (\<lambda>k. str_in k (lower c)) enterprise_keywords \<noteq> []" by auto
    then show ?thesis by (simp add: filter_empty_conv)
  qed
  then show ?thesis
    by (auto simp add: enterprise_loop_eq analyze_str message_points_def)
qed

text \<open>
  A message with three enterprise keywords (\<open>enterprise\<close>, \<open>corporate\<close>,
  \<open>partnership\<close>) and no positive keyword scores 30.
\<close>

theorem C5_witness:
  "2 \<le> length (filter (\<lambda>k. str_in k (ascii_lower ''Enterprise and Corporate partnership''))
           enterprise_keywords)
   \<and> enterprise_loop enterprise_keywords (ascii_lower ''Enterprise and Corporate partnership'') 0 = 30
   \<and> fst (analyze_content_nlp ascii_lower (\<lambda>p s. False) (PStr ''Enterprise and Corporate partnership'')) = 30"
proof -
  have two: "2 \<le> length (filter (\<lambda>k. str_in k (ascii_lower ''Enterprise and Corporate partnership''))
           enterprise_keywords)"
    by (simp add: enterprise_keywords_def ascii_lower_def)
  have "length (filter (\<lambda>k. str_in k (ascii_lower ''Enterprise and Corporate partnership''))
           positive_keywords) = 0"
    by (simp add: positive_keywords_def ascii_lower_def)
  with two
    C5_enterprise_once[of "ascii_lower" "''Enterprise and Corporate partnership''" 0 "\<lambda>p s. False"]
  show ?thesis by auto
qed

text \<open>
  C9. If the loop of \<^verbatim>\<open>score_lead\<close> raises an exception, the function returns the
  result of its \<^verbatim>\<open>except\<close> branch: score 0, quality \<open>unqualified\<close>, the
  intervention flag set, an empty trace and the text of the exception.  The label
  \<open>unqualified\<close> is none of the five tiers, and \<^verbatim>\<open>_determine_lead_quality\<close> returns
  one of the five tiers for every score.
\<close>

theorem C9_exception_result:
  "(score_loop lower re_search evs (0, False, []) = Inl e \<longrightarrow>
      score_lead lower re_search utcnow evs =
        \<lparr>lead_score = 0, quality = ''unqualified'', needs_human_intervention = True,
         interaction_details = [], total_interactions = None, scored_at = None,
         error = Some (str_exn e)\<rparr>)
   \<and> determine_lead_quality s \<in> set [''very_cold'', ''cold'', ''medium'', ''warm'', ''hot'']
   \<and> ''unqualified'' \<notin> set [''very_cold'', ''cold'', ''medium'', ''warm'', ''hot'']
   \<and> determine_lead_quality s \<noteq> ''unqualified''"
  by (simp add: score_lead_def determine_lead_quality_def)

text \<open>
  A chat event whose \<^verbatim>\<open>page_url\<close> is \<^verbatim>\<open>None\<close> raises \<^verbatim>\<open>AttributeError\<close> in rule 1
  and gives the error result.
\<close>

theorem C9_witness:
  "score_loop ascii_lower (\<lambda>p s. False)
     [[''type'' \<mapsto> PStr ''chat'', ''content'' \<mapsto> PStr ''hello'', ''page_url'' \<mapsto> PNone]]
     (0, False, [])
   = Inl (AttributeError (quoted ''NoneType'' @ '' object has no attribute '' @ quoted ''lower''))
   \<and> score_lead ascii_lower (\<lambda>p s. False) ''2024-01-15T11:00:00''
     [[''type'' \<mapsto> PStr ''chat'', ''content'' \<mapsto> PStr ''hello'', ''page_url'' \<mapsto> PNone]]
   = \<lparr>lead_score = 0, quality = ''unqualified'', needs_human_intervention = True,
         interaction_details = [], total_interactions = None, scored_at = None,
         error = Some (quoted ''NoneType'' @ '' object has no attribute '' @ quoted ''lower'')\<rparr>"
proof -
  have ev: "score_loop ascii_lower (\<lambda>p s. False)
     [[''type'' \<mapsto> PStr ''chat'', ''content'' \<mapsto> PStr ''hello'', ''page_url'' \<mapsto> PNone]]
     (0, False, [])
   = Inl (AttributeError (quoted ''NoneType'' @ '' object has no attribute '' @ quoted ''lower''))"
    by (simp add: score_interaction_def rule_pricing_def bind_exn_def dict_get_def)
  with C9_exception_result[of ascii_lower "\<lambda>p s. False"
      "[[''type'' \<mapsto> PStr ''chat'', ''content'' \<mapsto> PStr ''hello'', ''page_url'' \<mapsto> PNone]]"
      "AttributeError (quoted ''NoneType'' @ '' object has no attribute '' @ quoted ''lower'')"
      "''2024-01-15T11:00:00''"]
  show ?thesis by simp
qed

text \<open>
  C6 as stated fails where the loop raises: for a single page visit whose \<^verbatim>\<open>page_url\<close>
  is \<^verbatim>\<open>None\<close> the flag is set, and the list has no chat or message event at all.
\<close>

theorem C6_counterexample:
  "needs_human_intervention (score_lead ascii_lower (\<lambda>p s. False) ''2024-01-15T11:00:00''
      [[''type'' \<mapsto> PStr ''page_visit'', ''page_url'' \<mapsto> PNone]])
   \<and> \<not> is_message [''type'' \<mapsto> PStr ''page_visit'', ''page_url'' \<mapsto> PNone]
   \<and> \<not> negative_message ascii_lower (\<lambda>p s. False)
         [''type'' \<mapsto> PStr ''page_visit'', ''page_url'' \<mapsto> PNone]"
  by (simp add: score_lead_def score_interaction_def rule_pricing_def bind_exn_def dict_get_def
      is_message_def negative_message_def)

text \<open>
  C6, as the code has it.  The intervention flag of the result is set exactly when the call
  ended in the \<^verbatim>\<open>except\<close> branch or some chat or message event with content matched a
  negative keyword or pattern.  The flag is monotonic: if it is set for a list of events
  it is set for every extension of the list, and one iteration of the loop never resets
  it.  Negative sentiment takes nothing from the score: an iteration never lowers the
  total, the flag of a message is the keyword-or-pattern match, and the points of a
  message are never negative.
\<close>

theorem C6_escalation_flag:
  "(needs_human_intervention (score_lead lower re_search utcnow evs) \<longleftrightarrow>
      error (score_lead lower re_search utcnow evs) \<noteq> None
      \<or> (\<exists>e \<in> set evs. negative_message lower re_search e))
   \<and> (needs_human_intervention (score_lead lower re_search utcnow evs) \<longrightarrow>
        needs_human_intervention (score_lead lower re_search utcnow (evs @ later)))
   \<and> (score_interaction lower re_search ev (t, n, d) = Inr (t', n', d') \<longrightarrow>
        t \<le> t' \<and> (n \<longrightarrow> n'))
   \<and> snd (analyze_content_nlp lower re_search (PStr c)) = negative_match lower re_search c
   \<and> 0 \<le> fst (analyze_content_nlp lower re_search v)"
proof -
  have iff: "needs_human_intervention (score_lead lower re_search utcnow xs) \<longleftrightarrow>
      error (score_lead lower re_search utcnow xs) \<noteq> None
      \<or> (\<exists>e \<in> set xs. negative_message lower re_search e)" for xs
  proof (cases "score_loop lower re_search xs (0, False, [])")
    case (Inl e)
    then show ?thesis by (simp add: score_lead_def)
  next
    case (Inr st)
    obtain t n d where st: "st = (t, n, d)" using prod_cases3 by blast
    from score_loop_Inr[OF Inr[unfolded st]] Inr show ?thesis
      by (simp add: score_lead_def st)
  qed
  have err_app: "error (score_lead lower re_search utcnow (evs @ later)) = None \<Longrightarrow>
      error (score_lead lower re_search utcnow evs) = None"
    unfolding score_lead_error score_loop_append
    by (cases "score_loop lower re_search evs (0, False, [])") (auto simp add: bind_exn_def)
  have mono: "needs_human_intervention (score_lead lower re_search utcnow (evs @ later))"
    if "needs_human_intervention (score_lead lower re_search utcnow evs)"
    using that err_app unfolding iff[of evs] iff[of "evs @ later"] by auto
  have step: "t \<le> t' \<and> (n \<longrightarrow> n')"
    if "score_interaction lower re_search ev (t, n, d) = Inr (t', n', d')"
    using score_interaction_Inr[OF that] contributions_nonneg[of lower ev] by simp
  have nonneg: "0 \<le> fst (analyze_content_nlp lower re_search v)"
    by (cases v) (simp_all add: analyze_str analyze_not_str message_points_nonneg)
  from iff[of evs] mono step nonneg show ?thesis
    by (auto simp add: analyze_str)
qed

text \<open>
  A chat message with the keyword \<open>terrible\<close> sets the flag, a later pricing-page visit
  keeps it, and the iteration for the message leaves the total of 10 unchanged.
\<close>

theorem C6_witness:
  "needs_human_intervention (score_lead ascii_lower (\<lambda>p s. False) ''2024-01-15T11:00:00''
      [[''type'' \<mapsto> PStr ''chat'', ''content'' \<mapsto> PStr ''This is terrible'', ''page_url'' \<mapsto> PStr ''/chat'']])
   \<and> needs_human_intervention (score_lead ascii_lower (\<lambda>p s. False) ''2024-01-15T11:00:00''
      ([[''type'' \<mapsto> PStr ''chat'', ''content'' \<mapsto> PStr ''This is terrible'', ''page_url'' \<mapsto> PStr ''/chat'']]
       @ [[''type'' \<mapsto> PStr ''page_visit'', ''page_url'' \<mapsto> PStr ''/pricing'']]))
   \<and> score_interaction ascii_lower (\<lambda>p s. False)
        [''type'' \<mapsto> PStr ''chat'', ''content'' \<mapsto> PStr ''This is terrible'', ''page_url'' \<mapsto> PStr ''/chat'']
        (10, False, []) = Inr (10, True, [negative_line])
   \<and> (10::int) \<le> 10"
proof -
  have a: "needs_human_intervention (score_lead ascii_lower (\<lambda>p s. False) ''2024-01-15T11:00:00''
      [[''type'' \<mapsto> PStr ''chat'', ''content'' \<mapsto> PStr ''This is terrible'', ''page_url'' \<mapsto> PStr ''/chat'']])"
    by (simp add: score_lead_def score_interaction_def rule_pricing_def rule_python_def
      rule_form_def rule_message_def bind_exn_def dict_get_def ascii_lower_def py_eq_str_def
      analyze_content_nlp_def enterprise_keywords_def positive_keywords_def negative_keywords_def Let_def)
  have b: "score_interaction ascii_lower (\<lambda>p s. False)
        [''type'' \<mapsto> PStr ''chat'', ''content'' \<mapsto> PStr ''This is terrible'', ''page_url'' \<mapsto> PStr ''/chat'']
        (10, False, []) = Inr (10, True, [negative_line])"
    by (simp add: score_interaction_def rule_pricing_def rule_python_def
      rule_form_def rule_message_def bind_exn_def dict_get_def ascii_lower_def py_eq_str_def
      analyze_content_nlp_def enterprise_keywords_def positive_keywords_def negative_keywords_def Let_def)
  from a b C6_escalation_flag[of ascii_lower "\<lambda>p s. False" "''2024-01-15T11:00:00''"
      "[[''type'' \<mapsto> PStr ''chat'', ''content'' \<mapsto> PStr ''This is terrible'', ''page_url'' \<mapsto> PStr ''/chat'']]"
      "[[''type'' \<mapsto> PStr ''page_visit'', ''page_url'' \<mapsto> PStr ''/pricing'']]"
      "[''type'' \<mapsto> PStr ''chat'', ''content'' \<mapsto> PStr ''This is terrible'', ''page_url'' \<mapsto> PStr ''/chat'']"
      10 False "[]" 10 True "[negative_line]"]
  show ?thesis by blast
qed

section \<open>Properties of the blend and of the recommender\<close>




lemma exp_mapping_levels:
  "exp_mapping ''entry_level'' = Some 1" "exp_mapping ''junior'' = Some 2"
  "exp_mapping ''mid_level'' = Some 3" "exp_mapping ''senior'' = Some 4"
  "exp_mapping ''executive'' = Some 5"
  by (simp_all add: exp_mapping_def)

lemma candidate_rank_range: "1 \<le> candidate_rank f \<and> candidate_rank f \<le> 4"
  by (simp add: candidate_rank_def estimate_candidate_level_def exp_mapping_levels)

lemma em_score_eq:
  "em_score (calculate_experience_match f req) =
     (let c = candidate_rank f; r = required_rank req
      in if c \<ge> r then 100 else if c = r - 1 then 75 else if c = r - 2 then 50 else 25)"
  by (simp add: calculate_experience_match_def candidate_rank_def required_rank_def Let_def)

text \<open>
  C2, as the code has it.  The experience-match score is 100 whenever the candidate's
  bucket is at or above the required one, and otherwise the step function of the distance
  from the candidate's bucket up to the required one: 1 gives 75, 2 gives 50, more gives
  25.  So for a candidate at or below the required bucket it is the step function of the
  absolute distance.  An unrecognised required level has the rank of \<open>mid_level\<close> and
  gives the score that \<open>mid_level\<close> gives.
\<close>

theorem C2_experience_match:
  "em_score (calculate_experience_match f req)
     = (if required_rank req \<le> candidate_rank f then 100
        else distance_score (required_rank req - candidate_rank f))
   \<and> (candidate_rank f \<le> required_rank req \<longrightarrow>
        em_score (calculate_experience_match f req)
          = distance_score \<bar>candidate_rank f - required_rank req\<bar>)
   \<and> (exp_mapping req = None \<longrightarrow>
        required_rank req = required_rank ''mid_level''
        \<and> em_score (calculate_experience_match f req)
            = em_score (calculate_experience_match f ''mid_level''))"
  by (auto simp add: em_score_eq Let_def distance_score_def required_rank_def exp_mapping_levels)

text \<open>
  C2 as stated fails for an over-qualified candidate: a candidate in the bucket
  \<open>senior\<close> (competency 90, enrolled for 400 days) against the required level
  \<open>entry_level\<close> is at the absolute distance 3, whose step value is 25, and the code
  gives 100.
\<close>

theorem C2_counterexample:
  "em_score (calculate_experience_match
      \<lparr>f_candidate_id = PInt 7, f_total_courses = 4, f_completed_courses = 4,
       f_course_completion_rate = 1, f_avg_task_score = 90, f_total_tasks_completed = 0,
       f_task_completion_rate = 0, f_avg_competency_score = 90, f_max_competency_score = 90,
       f_competency_count = 1, f_competency_vector = [''python'' \<mapsto> 90],
       f_days_since_enrollment = 400, f_learning_velocity = 6.75, f_improvement_trend = 0.5,
       f_consistency_score = 0.5, f_total_interactions = 0, f_recent_activity = 0,
       f_engagement_score = 0\<rparr> ''entry_level'') = 100
   \<and> distance_score \<bar>candidate_rank
      \<lparr>f_candidate_id = PInt 7, f_total_courses = 4, f_completed_courses = 4,
       f_course_completion_rate = 1, f_avg_task_score = 90, f_total_tasks_completed = 0,
       f_task_completion_rate = 0, f_avg_competency_score = 90, f_max_competency_score = 90,
       f_competency_count = 1, f_competency_vector = [''python'' \<mapsto> 90],
       f_days_since_enrollment = 400, f_learning_velocity = 6.75, f_improvement_trend = 0.5,
       f_consistency_score = 0.5, f_total_interactions = 0, f_recent_activity = 0,
       f_engagement_score = 0\<rparr> - required_rank ''entry_level''\<bar> = 25"
  by (simp add: calculate_experience_match_def candidate_rank_def required_rank_def
      estimate_candidate_level_def exp_mapping_def distance_score_def Let_def)

text \<open>
  A \<open>junior\<close> candidate against \<open>senior\<close> is two buckets short and scores 50;
  against the unrecognised level \<open>principal\<close> the candidate scores 75, as against
  \<open>mid_level\<close>.
\<close>

theorem C2_witness:
  "candidate_rank
      \<lparr>f_candidate_id = PInt 8, f_total_courses = 1, f_completed_courses = 0,
       f_course_completion_rate = 0, f_avg_task_score = 0, f_total_tasks_completed = 0,
       f_task_completion_rate = 0, f_avg_competency_score = 65, f_max_competency_score = 65,
       f_competency_count = 1, f_competency_vector = [''python'' \<mapsto> 65],
       f_days_since_enrollment = 10, f_learning_velocity = 10, f_improvement_trend = 0.5,
       f_consistency_score = 0.5, f_total_interactions = 0, f_recent_activity = 0,
       f_engagement_score = 0\<rparr> \<le> required_rank ''senior''
   \<and> exp_mapping ''principal'' = None
   \<and> em_score (calculate_experience_match
      \<lparr>f_candidate_id = PInt 8, f_total_courses = 1, f_completed_courses = 0,
       f_course_completion_rate = 0, f_avg_task_score = 0, f_total_tasks_completed = 0,
       f_task_completion_rate = 0, f_avg_competency_score = 65, f_max_competency_score = 65,
       f_competency_count = 1, f_competency_vector = [''python'' \<mapsto> 65],
       f_days_since_enrollment = 10, f_learning_velocity = 10, f_improvement_trend = 0.5,
       f_consistency_score = 0.5, f_total_interactions = 0, f_recent_activity = 0,
       f_engagement_score = 0\<rparr> ''senior'') = 50
   \<and> em_score (calculate_experience_match
      \<lparr>f_candidate_id = PInt 8, f_total_courses = 1, f_completed_courses = 0,
       f_course_completion_rate = 0, f_avg_task_score = 0, f_total_tasks_completed = 0,
       f_task_completion_rate = 0, f_avg_competency_score = 65, f_max_competency_score = 65,
       f_competency_count = 1, f_competency_vector = [''python'' \<mapsto> 65],
       f_days_since_enrollment = 10, f_learning_velocity = 10, f_improvement_trend = 0.5,
       f_consistency_score = 0.5, f_total_interactions = 0, f_recent_activity = 0,
       f_engagement_score = 0\<rparr> ''principal'') = 75"
proof -
  let ?f = "\<lparr>f_candidate_id = PInt 8, f_total_courses = 1, f_completed_courses = 0,
       f_course_completion_rate = 0, f_avg_task_score = 0, f_total_tasks_completed = 0,
       f_task_completion_rate = 0, f_avg_competency_score = 65, f_max_competency_score = 65,
       f_competency_count = 1, f_competency_vector = [''python'' \<mapsto> 65],
       f_days_since_enrollment = 10, f_learning_velocity = 10, f_improvement_trend = 0.5,
       f_consistency_score = 0.5, f_total_interactions = 0, f_recent_activity = 0,
       f_engagement_score = 0\<rparr>"
  have c: "candidate_rank ?f = 2"
    by (simp add: candidate_rank_def estimate_candidate_level_def exp_mapping_def)
  have r: "required_rank ''senior'' = 4" "required_rank ''mid_level'' = 3"
    by (simp_all add: required_rank_def exp_mapping_def)
  have u: "exp_mapping ''principal'' = None"
    by (simp add: exp_mapping_def)
  from C2_experience_match[of ?f "''senior''"] C2_experience_match[of ?f "''principal''"]
    C2_experience_match[of ?f "''mid_level''"] c r u
  show ?thesis by (simp add: distance_score_def)
qed







lemma recommend_loop_eq:
  "recommend_loop lower fromisoformat now rs re cs acc =
     acc @ List.map_filter
             (\<lambda>c. case process_candidate lower fromisoformat now rs re c of
                    Inl e \<Rightarrow> None | Inr r \<Rightarrow> Some r) cs"
  by (induction cs arbitrary: acc) (auto simp add: map_filter_simps split: sum.splits)

lemma map_filter_append:
  "List.map_filter f (xs @ ys) = List.map_filter f xs @ List.map_filter f ys"
  by (simp add: List.map_filter_def)

lemma recommend_loop_skip:
  "process_candidate lower fromisoformat now rs re c = Inl e \<Longrightarrow>
   recommend_loop lower fromisoformat now rs re (cs1 @ c # cs2) acc =
   recommend_loop lower fromisoformat now rs re (cs1 @ cs2) acc"
  by (simp add: recommend_loop_eq map_filter_append map_filter_simps)

lemma length_recommend_loop:
  "length (recommend_loop lower fromisoformat now rs re cs []) \<le> length cs"
  by (simp add: recommend_loop_eq List.map_filter_def)

lemma recommend_candidates_take:
  "0 \<le> top_k \<Longrightarrow>
   recommend_candidates lower fromisoformat now parse jd cs top_k =
     take (nat top_k)
       (sort_key (\<lambda>x. - r_overall_score x)
          (recommend_loop lower fromisoformat now (fst (jd_requirements parse jd))
             (snd (jd_requirements parse jd)) cs []))"
  by (simp add: recommend_candidates_def py_slice_to_def Let_def)

lemma recommend_candidates_length:
  "0 \<le> top_k \<Longrightarrow>
   int (length (recommend_candidates lower fromisoformat now parse jd cs top_k))
     \<le> min top_k (int (length cs))"
  using length_recommend_loop[of lower fromisoformat now "fst (jd_requirements parse jd)"
      "snd (jd_requirements parse jd)" cs]
  by (auto simp add: recommend_candidates_take min_def)

lemma recommend_candidates_zero:
  "recommend_candidates lower fromisoformat now parse jd cs 0 = []"
  by (simp add: recommend_candidates_def py_slice_to_def Let_def)

lemma extract_no_history:
  "extract_candidate_features ascii_lower fromisoformat now
     \<lparr>c_id = i, c_full_name = n, c_enrollments = [], c_tasks = [],
      c_competencies = [\<lparr>cp_competency_name = ''Python'', cp_score = s\<rparr>], c_interactions = []\<rparr>
   = Inr \<lparr>f_candidate_id = i, f_total_courses = 0, f_completed_courses = 0,
       f_course_completion_rate = 0, f_avg_task_score = 0, f_total_tasks_completed = 0,
       f_task_completion_rate = 0, f_avg_competency_score = s, f_max_competency_score = s,
       f_competency_count = 1, f_competency_vector = [''python'' \<mapsto> s],
       f_days_since_enrollment = 0, f_learning_velocity = 0, f_improvement_trend = 0.5,
       f_consistency_score = 0.5, f_total_interactions = 0, f_recent_activity = 0,
       f_engagement_score = 0\<rparr>"
  by (simp add: extract_candidate_features_def calculate_days_since_enrollment_def
      calculate_learning_velocity_def calculate_recent_activity_def calculate_improvement_trend_def
      calculate_consistency_score_def calculate_engagement_score_def bind_exn_def np_mean_def
      normalize_name_def replace_char_def ascii_lower_def Let_def)

lemma process_no_history:
  "\<exists>r. process_candidate ascii_lower fromisoformat now [''python''] ''junior''
     \<lparr>c_id = i, c_full_name = n, c_enrollments = [], c_tasks = [],
      c_competencies = [\<lparr>cp_competency_name = ''Python'', cp_score = 90\<rparr>], c_interactions = []\<rparr>
     = Inr r \<and> r_candidate_id r = i \<and> r_overall_score r = 6635 / 100"
  unfolding process_candidate_def extract_no_history
  apply (simp add: bind_exn_def Let_def)
  apply (simp add: calculate_skill_match_score_def calculate_experience_match_def
      calculate_performance_score_def calculate_learning_potential_def calculate_cultural_fit_def
      estimate_candidate_level_def exp_mapping_def normalize_name_def replace_char_def ascii_lower_def
      np_mean_def Let_def round2_def round_half_even_def)
  done

lemma process_no_history_70:
  "\<exists>r. process_candidate ascii_lower fromisoformat now [''python''] ''junior''
     \<lparr>c_id = i, c_full_name = n, c_enrollments = [], c_tasks = [],
      c_competencies = [\<lparr>cp_competency_name = ''Python'', cp_score = 70\<rparr>], c_interactions = []\<rparr>
     = Inr r \<and> r_candidate_id r = i \<and> r_overall_score r = 6355 / 100"
  unfolding process_candidate_def extract_no_history
  apply (simp add: bind_exn_def Let_def)
  apply (simp add: calculate_skill_match_score_def calculate_experience_match_def
      calculate_performance_score_def calculate_learning_potential_def calculate_cultural_fit_def
      estimate_candidate_level_def exp_mapping_def normalize_name_def replace_char_def ascii_lower_def
      np_mean_def Let_def round2_def round_half_even_def)
  done

lemma process_no_competency:
  "\<exists>r. process_candidate ascii_lower fromisoformat now [''python''] ''junior''
     \<lparr>c_id = i, c_full_name = n, c_enrollments = [], c_tasks = [],
      c_competencies = [], c_interactions = []\<rparr>
     = Inr r \<and> r_candidate_id r = i \<and> r_overall_score r = 265 / 10"
  unfolding process_candidate_def
  apply (simp add: extract_candidate_features_def calculate_days_since_enrollment_def
      calculate_learning_velocity_def calculate_recent_activity_def calculate_improvement_trend_def
      calculate_consistency_score_def calculate_engagement_score_def bind_exn_def Let_def)
  apply (simp add: calculate_skill_match_score_def calculate_experience_match_def
      calculate_performance_score_def calculate_learning_potential_def calculate_cultural_fit_def
      estimate_candidate_level_def exp_mapping_def normalize_name_def replace_char_def ascii_lower_def
      np_mean_def Let_def round2_def round_half_even_def)
  done

lemma ranked_three:
  assumes "r_overall_score rA = 6635 / 100" "r_overall_score rB = 6355 / 100"
    "r_overall_score rC = 265 / 10"
  shows "sort_key (\<lambda>x. - r_overall_score x) [rC, rB, rA] = [rA, rB, rC]"
  using assms by simp

text \<open>
  C3 at a negative \<open>top_k\<close>.  Three candidates are ranked An, Binh, Chi.  With
  \<open>top_k = -1\<close> the slice \<^verbatim>\<open>recommendations[:top_k]\<close> drops the last entry only, so
  \<^verbatim>\<open>recommend_candidates\<close> returns the entries of An and Binh, where the claim requires
  the empty list.  (For \<open>top_k \<ge> 0\<close> the result is the first \<open>top_k\<close> entries of the
  ranking, by \<open>recommend_candidates_take\<close>, and the empty list for 0.)
\<close>

theorem C3_negative_top_k:
  "map r_candidate_id
     (recommend_candidates ascii_lower fromisoformat now parse
        \<lparr>jd_parsed_requirements =
           Some \<lparr>pj_skills = [(''programming'', [''python''])], pj_experience_level = Some ''junior''\<rparr>,
         jd_description_text = ''Python developer'', jd_title = ''Developer''\<rparr>
        [\<lparr>c_id = PInt 3, c_full_name = Some ''Chi'', c_enrollments = [], c_tasks = [],
          c_competencies = [], c_interactions = []\<rparr>,
         \<lparr>c_id = PInt 2, c_full_name = Some ''Binh'', c_enrollments = [], c_tasks = [],
          c_competencies = [\<lparr>cp_competency_name = ''Python'', cp_score = 70\<rparr>], c_interactions = []\<rparr>,
         \<lparr>c_id = PInt 1, c_full_name = Some ''An'', c_enrollments = [], c_tasks = [],
          c_competencies = [\<lparr>cp_competency_name = ''Python'', cp_score = 90\<rparr>], c_interactions = []\<rparr>]
        (- 1))
   = [PInt 1, PInt 2]"
proof -
  let ?jd = "\<lparr>jd_parsed_requirements =
           Some \<lparr>pj_skills = [(''programming'', [''python''])], pj_experience_level = Some ''junior''\<rparr>,
         jd_description_text = ''Python developer'', jd_title = ''Developer''\<rparr>"
  let ?cC = "\<lparr>c_id = PInt 3, c_full_name = Some ''Chi'', c_enrollments = [], c_tasks = [],
          c_competencies = [], c_interactions = []\<rparr>"
  let ?cB = "\<lparr>c_id = PInt 2, c_full_name = Some ''Binh'', c_enrollments = [], c_tasks = [],
          c_competencies = [\<lparr>cp_competency_name = ''Python'', cp_score = 70\<rparr>], c_interactions = []\<rparr>"
  let ?cA = "\<lparr>c_id = PInt 1, c_full_name = Some ''An'', c_enrollments = [], c_tasks = [],
          c_competencies = [\<lparr>cp_competency_name = ''Python'', cp_score = 90\<rparr>], c_interactions = []\<rparr>"
  have req: "jd_requirements parse ?jd = ([''python''], ''junior'')"
    by (simp add: jd_requirements_def)
  obtain rA where rA: "process_candidate ascii_lower fromisoformat now [''python''] ''junior'' ?cA = Inr rA"
    "r_candidate_id rA = PInt 1" "r_overall_score rA = 6635 / 100"
    using process_no_history[of fromisoformat now "PInt 1" "Some ''An''"] by blast
  obtain rB where rB: "process_candidate ascii_lower fromisoformat now [''python''] ''junior'' ?cB = Inr rB"
    "r_candidate_id rB = PInt 2" "r_overall_score rB = 6355 / 100"
    using process_no_history_70[of fromisoformat now "PInt 2" "Some ''Binh''"] by blast
  obtain rC where rC: "process_candidate ascii_lower fromisoformat now [''python''] ''junior'' ?cC = Inr rC"
    "r_candidate_id rC = PInt 3" "r_overall_score rC = 265 / 10"
    using process_no_competency[of fromisoformat now "PInt 3" "Some ''Chi''"] by blast
  have loop: "recommend_loop ascii_lower fromisoformat now [''python''] ''junior'' [?cC, ?cB, ?cA] []
      = [rC, rB, rA]"
    by (simp add: rA rB rC)
  have "recommend_candidates ascii_lower fromisoformat now parse ?jd [?cC, ?cB, ?cA] (- 1) = [rA, rB]"
    unfolding recommend_candidates_def req Let_def fst_conv snd_conv loop
      ranked_three[OF rA(3) rB(3) rC(3)]
    by (simp add: py_slice_to_def)
  then show ?thesis by (simp add: rA rB)
qed

text \<open>
  C10. If the processing of a candidate raises, \<^verbatim>\<open>recommend_candidates\<close> returns what it
  returns for the pool without that candidate: the candidate leaves no entry and no
  error.  A candidate with an enrollment dated \<^verbatim>\<open>2024-01-15T10:30:00Z\<close> is such a one
  whenever \<^verbatim>\<open>fromisoformat\<close> reads the text, with \<^verbatim>\<open>+00:00\<close> for \<^verbatim>\<open>Z\<close>, as an aware
  datetime: subtracting it from the naive \<^verbatim>\<open>datetime.now()\<close> raises.  For the pool of
  this one candidate and \<open>top_k = 10\<close> the result is empty, shorter than the minimum of
  \<open>top_k\<close> and the size of the pool.
\<close>

theorem C10_failed_candidate_skipped:
  "(process_candidate lower fromisoformat now (fst (jd_requirements parse jd))
       (snd (jd_requirements parse jd)) c = Inl e \<longrightarrow>
      recommend_candidates lower fromisoformat now parse jd (cs1 @ c # cs2) top_k
        = recommend_candidates lower fromisoformat now parse jd (cs1 @ cs2) top_k)
   \<and> (fromisoformat ''2024-01-15T10:30:00+00:00'' = Inr (Aware t) \<longrightarrow>
        recommend_candidates lower fromisoformat now parse jd
          [\<lparr>c_id = PInt 4, c_full_name = Some ''Dung'',
            c_enrollments = [\<lparr>en_status = Some ''active'',
                               en_created_at = IsoText ''2024-01-15T10:30:00Z''\<rparr>],
            c_tasks = [], c_competencies = [], c_interactions = []\<rparr>] 10 = []
        \<and> int (length (recommend_candidates lower fromisoformat now parse jd
          [\<lparr>c_id = PInt 4, c_full_name = Some ''Dung'',
            c_enrollments = [\<lparr>en_status = Some ''active'',
                               en_created_at = IsoText ''2024-01-15T10:30:00Z''\<rparr>],
            c_tasks = [], c_competencies = [], c_interactions = []\<rparr>] 10))
          < min 10 (int (length
          [\<lparr>c_id = PInt 4, c_full_name = Some ''Dung'',
            c_enrollments = [\<lparr>en_status = Some ''active'',
                               en_created_at = IsoText ''2024-01-15T10:30:00Z''\<rparr>],
            c_tasks = [], c_competencies = [], c_interactions = []\<rparr>])))"
proof -
  let ?bad = "\<lparr>c_id = PInt 4, c_full_name = Some ''Dung'',
            c_enrollments = [\<lparr>en_status = Some ''active'',
                               en_created_at = IsoText ''2024-01-15T10:30:00Z''\<rparr>],
            c_tasks = [], c_competencies = [], c_interactions = []\<rparr>"
  have skip: "recommend_candidates lower fromisoformat now parse jd (cs1 @ c # cs2) top_k
        = recommend_candidates lower fromisoformat now parse jd (cs1 @ cs2) top_k"
    if "process_candidate lower fromisoformat now (fst (jd_requirements parse jd))
       (snd (jd_requirements parse jd)) c = Inl e"
    using recommend_loop_skip[OF that] by (simp add: recommend_candidates_def Let_def)
  have bad: "recommend_candidates lower fromisoformat now parse jd [?bad] 10 = []"
    if iso: "fromisoformat ''2024-01-15T10:30:00+00:00'' = Inr (Aware t)"
  proof -
    have "calculate_days_since_enrollment fromisoformat now ?bad
        = Inl (TypeError ''can't subtract offset-naive and offset-aware datetimes'')"
      by (simp add: calculate_days_since_enrollment_def replace_char_def iso bind_exn_def)
    then have "process_candidate lower fromisoformat now rs re ?bad
        = Inl (TypeError ''can't subtract offset-naive and offset-aware datetimes'')" for rs re
      by (simp add: process_candidate_def extract_candidate_features_def bind_exn_def Let_def)
    then show ?thesis
      by (simp add: recommend_candidates_def py_slice_to_def Let_def)
  qed
  from skip bad show ?thesis by simp
qed

text \<open>
  With a \<^verbatim>\<open>fromisoformat\<close> that reads the one text of the example, the candidate Dung
  raises the \<^verbatim>\<open>TypeError\<close>, and the pool of An and Dung yields the entry of An alone.
\<close>

theorem C10_witness:
  "process_candidate ascii_lower
      (\<lambda>s. if s = ''2024-01-15T10:30:00+00:00'' then Inr (Aware 1705314600000000)
            else Inl (ValueError (''Invalid isoformat string: '' @ quoted s)))
      1730700000000000 [''python''] ''junior''
      \<lparr>c_id = PInt 4, c_full_name = Some ''Dung'',
        c_enrollments = [\<lparr>en_status = Some ''active'',
                           en_created_at = IsoText ''2024-01-15T10:30:00Z''\<rparr>],
        c_tasks = [], c_competencies = [], c_interactions = []\<rparr>
     = Inl (TypeError ''can't subtract offset-naive and offset-aware datetimes'')
   \<and> map r_candidate_id
       (recommend_candidates ascii_lower
          (\<lambda>s. if s = ''2024-01-15T10:30:00+00:00'' then Inr (Aware 1705314600000000)
                else Inl (ValueError (''Invalid isoformat string: '' @ quoted s)))
          1730700000000000
          (\<lambda>text title. \<lparr>pj_skills = [], pj_experience_level = None\<rparr>)
          \<lparr>jd_parsed_requirements =
             Some \<lparr>pj_skills = [(''programming'', [''python''])], pj_experience_level = Some ''junior''\<rparr>,
           jd_description_text = ''Python developer'', jd_title = ''Developer''\<rparr>
          ([\<lparr>c_id = PInt 1, c_full_name = Some ''An'', c_enrollments = [], c_tasks = [],
             c_competencies = [\<lparr>cp_competency_name = ''Python'', cp_score = 90\<rparr>],
             c_interactions = []\<rparr>]
           @ \<lparr>c_id = PInt 4, c_full_name = Some ''Dung'',
               c_enrollments = [\<lparr>en_status = Some ''active'',
                                  en_created_at = IsoText ''2024-01-15T10:30:00Z''\<rparr>],
               c_tasks = [], c_competencies = [], c_interactions = []\<rparr> # [])
          10)
     = [PInt 1]"
proof -
  let ?iso = "\<lambda>s. if s = ''2024-01-15T10:30:00+00:00'' then Inr (Aware 1705314600000000)
            else Inl (ValueError (''Invalid isoformat string: '' @ quoted s))"
  let ?parse = "\<lambda>text title. \<lparr>pj_skills = [], pj_experience_level = None\<rparr>"
  let ?jd = "\<lparr>jd_parsed_requirements =
             Some \<lparr>pj_skills = [(''programming'', [''python''])], pj_experience_level = Some ''junior''\<rparr>,
           jd_description_text = ''Python developer'', jd_title = ''Developer''\<rparr>"
  let ?bad = "\<lparr>c_id = PInt 4, c_full_name = Some ''Dung'',
        c_enrollments = [\<lparr>en_status = Some ''active'',
                           en_created_at = IsoText ''2024-01-15T10:30:00Z''\<rparr>],
        c_tasks = [], c_competencies = [], c_interactions = []\<rparr>"
  let ?cA = "\<lparr>c_id = PInt 1, c_full_name = Some ''An'', c_enrollments = [], c_tasks = [],
             c_competencies = [\<lparr>cp_competency_name = ''Python'', cp_score = 90\<rparr>],
             c_interactions = []\<rparr>"
  have req: "jd_requirements ?parse ?jd = ([''python''], ''junior'')"
    by (simp add: jd_requirements_def)
  have bad: "process_candidate ascii_lower ?iso 1730700000000000 [''python''] ''junior'' ?bad
     = Inl (TypeError ''can't subtract offset-naive and offset-aware datetimes'')"
    by (simp add: process_candidate_def extract_candidate_features_def
        calculate_days_since_enrollment_def replace_char_def bind_exn_def Let_def)
  obtain rA where rA:
    "process_candidate ascii_lower ?iso 1730700000000000 [''python''] ''junior'' ?cA = Inr rA"
    "r_candidate_id rA = PInt 1" "r_overall_score rA = 6635 / 100"
    using process_no_history[of ?iso 1730700000000000 "PInt 1" "Some ''An''"] by blast
  have one: "recommend_candidates ascii_lower ?iso 1730700000000000 ?parse ?jd ([?cA] @ []) 10 = [rA]"
    by (simp add: recommend_candidates_def req rA py_slice_to_def Let_def)
  from bad have bad':
    "process_candidate ascii_lower ?iso 1730700000000000 (fst (jd_requirements ?parse ?jd))
       (snd (jd_requirements ?parse ?jd)) ?bad
     = Inl (TypeError ''can't subtract offset-naive and offset-aware datetimes'')"
    by (simp only: req fst_conv snd_conv)
  note inst = C10_failed_candidate_skipped[of ascii_lower ?iso 1730700000000000 ?parse ?jd ?bad
      "TypeError ''can't subtract offset-naive and offset-aware datetimes''" "[?cA]" "[]" 10]
  from mp[OF conjunct1[OF inst] bad'] one
  have "recommend_candidates ascii_lower ?iso 1730700000000000 ?parse ?jd ([?cA] @ ?bad # []) 10 = [rA]"
    by (simp only:)
  with bad rA(2) show ?thesis by (simp only: list.map) 
qed

end
